theory Spec2Isabelle
  imports Main
begin

section \<open>Go primitives used by the sources\<close>

text \<open>
  A Go \<open>error\<close> value is identified with the text its \<open>Error()\<close> method returns;
  \<open>nil\<close> is \<open>None\<close> of \<open>error option\<close>. \<open>fmt.Errorf\<close> builds such a value from
  the formatted text.
\<close>

datatype error = Errorf string

fun Error_text :: "error \<Rightarrow> string" where
  "Error_text (Errorf m) = m"

text \<open>
  Go's \<open>int\<close> is taken as the 64-bit two's complement integer: values are kept as \<open>int\<close>
  and every addition of the sources wraps around explicitly.
\<close>

definition MaxInt :: int where
  "MaxInt = 2 ^ 63 - 1"

definition MinInt :: int where
  "MinInt = - (2 ^ 63)"

definition go_add :: "int \<Rightarrow> int \<Rightarrow> int" where
  "go_add a b = ((a + b + 2 ^ 63) mod 2 ^ 64) - 2 ^ 63"

text \<open>\<open>strconv.Itoa\<close>: the decimal text of an integer.\<close>

definition digit_char :: "nat \<Rightarrow> char" where
  "digit_char d = ''0123456789'' ! d"

fun digits :: "nat \<Rightarrow> string" where
  "digits n = (if n < 10 then [digit_char n]
               else digits (n div 10) @ [digit_char (n mod 10)])"

definition Itoa :: "int \<Rightarrow> string" where
  "Itoa i = (if i < 0 then CHR ''-'' # digits (nat (- i)) else digits (nat i))"

text \<open>\<open>net.JoinHostPort\<close>: a host that contains a colon is put in brackets.\<close>

definition JoinHostPort :: "string \<Rightarrow> string \<Rightarrow> string" where
  "JoinHostPort host port =
     (if CHR '':'' \<in> set host then ''['' @ host @ '']:'' @ port
      else host @ '':'' @ port)"

section \<open>The UDP relay (proxies/udp.go)\<close>

record UDPAddr =
  IP :: string
  Port :: int

datatype conn = ListenConn UDPAddr | TargetConn UDPAddr

text \<open>
  The network as the relay sees it. \<open>conns\<close> are the sockets this process holds
  open, the newest first. The other fields are the answers of package \<open>net\<close>:
  \<open>resolve\<close> is the outcome of \<open>net.ResolveUDPAddr\<close> for a name, \<open>listen_error\<close> the
  error of \<open>net.ListenUDP\<close> for a local address and \<open>dial_error\<close> the error of
  \<open>net.DialUDP\<close> for a target, each given the sockets the process holds (\<open>None\<close>
  when the call succeeds).
\<close>

record netstate =
  resolve :: "string \<Rightarrow> error + UDPAddr"
  listen_error :: "UDPAddr \<Rightarrow> conn list \<Rightarrow> error option"
  dial_error :: "UDPAddr \<Rightarrow> conn list \<Rightarrow> error option"
  conns :: "conn list"

definition ResolveUDPAddr :: "string \<Rightarrow> netstate \<Rightarrow> error + UDPAddr" where
  "ResolveUDPAddr a s = resolve s a"

definition ListenUDP :: "UDPAddr \<Rightarrow> netstate \<Rightarrow> (error + conn) \<times> netstate" where
  "ListenUDP a s =
     (case listen_error s a (conns s) of
        Some err \<Rightarrow> (Inl err, s)
      | None \<Rightarrow> (Inr (ListenConn a), s\<lparr>conns := ListenConn a # conns s\<rparr>))"

definition DialUDP :: "UDPAddr \<Rightarrow> netstate \<Rightarrow> (error + conn) \<times> netstate" where
  "DialUDP a s =
     (case dial_error s a (conns s) of
        Some err \<Rightarrow> (Inl err, s)
      | None \<Rightarrow> (Inr (TargetConn a), s\<lparr>conns := TargetConn a # conns s\<rparr>))"

definition conn_Close :: "conn \<Rightarrow> netstate \<Rightarrow> netstate" where
  "conn_Close c s = s\<lparr>conns := remove1 c (conns s)\<rparr>"

text \<open>
  Modelled from the spec: the statistics sink of package \<open>stats\<close> is not among the
  sources. The spec gives it \<open>recordNow(byteCount)\<close> and \<open>stop()\<close>; its name and
  whether \<open>Stop\<close> was called are kept.
\<close>

record Stats =
  stats_name :: string
  stats_stopped :: bool

definition NewStats :: "string \<Rightarrow> Stats" where
  "NewStats n = \<lparr>stats_name = n, stats_stopped = False\<rparr>"

text \<open>
  \<open>closeOnce\<close> is the \<open>sync.Once\<close>: \<open>True\<close> when its function has run.
  \<open>proxyClosed\<close> is the buffered channel, kept as the number of values sent to it.
\<close>

record UdpProxy =
  listenConn :: conn
  listenAddr :: UDPAddr
  targetConn :: conn
  targetAddr :: UDPAddr
  closeOnce :: bool
  proxyClosed :: nat
  Closed :: bool
  Err :: "error option"
  Stats :: Stats

definition NewUdpProxy :: "string \<Rightarrow> string \<Rightarrow> netstate \<Rightarrow> (error + UdpProxy) \<times> netstate" where
  "NewUdpProxy listenAddr' targetAddr' s =
     (case ResolveUDPAddr listenAddr' s of
        Inl err \<Rightarrow> (Inl err, s)
      | Inr listenUDP \<Rightarrow>
     (case ResolveUDPAddr targetAddr' s of
        Inl err \<Rightarrow> (Inl err, s)
      | Inr targetUDP \<Rightarrow>
     (case ListenUDP listenUDP s of
        (Inl err, s1) \<Rightarrow> (Inl err, s1)
      | (Inr lc, s1) \<Rightarrow>
     (case DialUDP targetUDP s1 of
        (Inl err, s2) \<Rightarrow> (Inl err, conn_Close lc s2)
      | (Inr tc, s2) \<Rightarrow>
          (Inr \<lparr>listenConn = lc, listenAddr = listenUDP,
                targetConn = tc, targetAddr = targetUDP,
                closeOnce = False, proxyClosed = 0,
                Closed = False, Err = None,
                Stats = NewStats (''UDP Proxy '' @ listenAddr')\<rparr>, s2)))))"

definition doclose :: "error option \<Rightarrow> UdpProxy \<times> netstate \<Rightarrow> UdpProxy \<times> netstate" where
  "doclose err ps =
     (case ps of (proxy, s) \<Rightarrow>
        if closeOnce proxy then (proxy, s)
        else (proxy\<lparr>closeOnce := True, Err := err, Closed := True,
                    proxyClosed := Suc (proxyClosed proxy),
                    Stats := (Stats proxy)\<lparr>stats_stopped := True\<rparr>\<rparr>,
              conn_Close (targetConn proxy) (conn_Close (listenConn proxy) s)))"

definition Close :: "UdpProxy \<times> netstate \<Rightarrow> UdpProxy \<times> netstate" where
  "Close ps = doclose None ps"

text \<open>One pass through the body of the loop of \<open>NewUdpProxyPair\<close>, up to the
  increment of \<open>startPort\<close>: the values of \<open>proxy1\<close>, \<open>proxy2\<close> and \<open>err\<close>.\<close>

definition pair_attempt ::
  "string \<Rightarrow> string \<Rightarrow> string \<Rightarrow> int \<Rightarrow> netstate
     \<Rightarrow> (UdpProxy option \<times> UdpProxy option \<times> error option) \<times> netstate" where
  "pair_attempt listenHost target1 target2 startPort s =
     (let addr1 = JoinHostPort listenHost (Itoa startPort) in
      case NewUdpProxy addr1 target1 s of
        (Inl err, s1) \<Rightarrow> ((None, None, Some err), s1)
      | (Inr proxy1, s1) \<Rightarrow>
          (let addr2 = JoinHostPort listenHost (Itoa (go_add startPort 1)) in
           case NewUdpProxy addr2 target2 s1 of
             (Inr proxy2, s2) \<Rightarrow> ((Some proxy1, Some proxy2, None), s2)
           | (Inl err, s2) \<Rightarrow>
               (case Close (proxy1, s2) of
                  (proxy1', s3) \<Rightarrow> ((Some proxy1', None, Some err), s3))))"

partial_function (option) NewUdpProxyPair ::
  "string \<Rightarrow> string \<Rightarrow> string \<Rightarrow> int \<Rightarrow> int \<Rightarrow> netstate
     \<Rightarrow> ((UdpProxy option \<times> UdpProxy option \<times> error option) \<times> netstate) option" where
  "NewUdpProxyPair listenHost target1 target2 startPort maxPort s =
     (case pair_attempt listenHost target1 target2 startPort s of
        ((proxy1, proxy2, err), s') \<Rightarrow>
          if err = None then Some ((proxy1, proxy2, None), s')
          else
            (let startPort' = go_add startPort 2 in
             if startPort' > maxPort
             then Some ((proxy1, proxy2,
                    Some (Errorf (''Failed to allocate UDP proxy pair in port range ''
                                   @ Itoa startPort' @ ''-'' @ Itoa maxPort))), s')
             else NewUdpProxyPair listenHost target1 target2 startPort' maxPort s'))"


text \<open>
  \<open>Start\<close> launches the two workers \<open>readPackets\<close> and \<open>forwardPackets\<close>. They touch
  the fields of the relay only through \<open>doclose\<close>, when a read or a write fails, so
  starting leaves the record as it is and the failures are events of their own.
\<close>

definition Start :: "UdpProxy \<Rightarrow> UdpProxy" where
  "Start proxy = proxy"

datatype relay_event = CallClose | ReadFailed error | WriteFailed error

fun relay_step :: "relay_event \<Rightarrow> UdpProxy \<times> netstate \<Rightarrow> UdpProxy \<times> netstate" where
  "relay_step CallClose ps = Close ps"
| "relay_step (ReadFailed err) ps = doclose (Some err) ps"
| "relay_step (WriteFailed err) ps = doclose (Some err) ps"

fun event_error :: "relay_event \<Rightarrow> error option" where
  "event_error CallClose = None"
| "event_error (ReadFailed err) = Some err"
| "event_error (WriteFailed err) = Some err"

fun relay_run :: "relay_event list \<Rightarrow> UdpProxy \<times> netstate \<Rightarrow> UdpProxy \<times> netstate" where
  "relay_run [] ps = ps"
| "relay_run (e # es) ps = relay_run es (relay_step e ps)"

section \<open>The AMP to RTSP proxy\<close>

definition minPort :: int where
  "minPort = 20000"

definition maxPort :: int where
  "maxPort = 50000"

record StopSessionValue =
  ReceiverHost :: string
  ReqPort :: int

record StartSessionValue = StopSessionValue +
  MediaFile :: string

text \<open>
  Modelled from the spec: the backend control-session client \<open>rtpClient.RtspClient\<close> is
  not among the sources. The spec gives it \<open>start(mediaURL, localReceivePort,
  logDestination)\<close>, which yields a handle or an error, \<open>stop()\<close>, and an observation
  point that signals completion. The handle keeps the arguments of its start and whether
  the session still runs.
\<close>

record RtspClient =
  rtsp_url :: string
  rtsp_port :: int
  rtsp_logfile :: string
  rtsp_running :: bool

definition RtspClient_Stop :: "RtspClient \<Rightarrow> RtspClient" where
  "RtspClient_Stop rtsp = rtsp\<lparr>rtsp_running := False\<rparr>"

record proxySession =
  backend :: RtspClient
  rtpProxy :: UdpProxy
  rtcpProxy :: UdpProxy
  port :: int
  mediaFile :: string
  client :: string

datatype hook = RtspStarted RtspClient | RtspEnded RtspClient

text \<open>
  The proxy and what surrounds it. \<open>sessions\<close> maps a client to a pointer, an index
  into \<open>heap\<close>, the session objects made so far. \<open>watchers\<close> are the sessions whose
  watcher of \<open>observe\<close> still waits for the backend to end. \<open>net\<close> is the network,
  \<open>rtsp_start_error\<close> the error \<open>rtpClient.StartRtspClient\<close> answers with (\<open>None\<close>
  when the backend starts), \<open>resolve_reference\<close> the text of
  \<open>rtspURL.ResolveReference\<close> for a path. The two callbacks are kept as whether they
  are set; \<open>hooks\<close> lists their calls, the newest first.
\<close>

record AmpProxy =
  rtspURL :: string
  proxyHost :: string
  sessions :: "string \<rightharpoonup> nat"
  RtspStartedCallback :: bool
  RtspEndedCallback :: bool
  heap :: "proxySession list"
  watchers :: "nat list"
  hooks :: "hook list"
  net :: netstate
  rtsp_start_error :: "string \<Rightarrow> int \<Rightarrow> string \<Rightarrow> error option"
  resolve_reference :: "string \<Rightarrow> string \<Rightarrow> string"

definition StartRtspClient :: "string \<Rightarrow> int \<Rightarrow> string \<Rightarrow> AmpProxy \<Rightarrow> error + RtspClient" where
  "StartRtspClient url rtpPort logfile proxy =
     (case rtsp_start_error proxy url rtpPort logfile of
        Some err \<Rightarrow> Inl err
      | None \<Rightarrow> Inr \<lparr>rtsp_url = url, rtsp_port = rtpPort,
                      rtsp_logfile = logfile, rtsp_running = True\<rparr>)"

definition observe :: "nat \<Rightarrow> AmpProxy \<Rightarrow> AmpProxy" where
  "observe session proxy =
     (let rtsp = backend (heap proxy ! session);
          proxy1 = (if RtspStartedCallback proxy
                    then proxy\<lparr>hooks := RtspStarted rtsp # hooks proxy\<rparr> else proxy)
      in proxy1\<lparr>watchers := session # watchers proxy1\<rparr>)"

text \<open>
  \<open>startSession\<close> gives \<open>None\<close> when the call does not return: the allocator runs
  on for ever, or it hands back a \<open>nil\<close> relay without an error, which \<open>Start\<close> would
  dereference.
\<close>

definition startSession :: "'a StartSessionValue_scheme \<Rightarrow> AmpProxy \<Rightarrow> (error option \<times> AmpProxy) option" where
  "startSession desc proxy =
     (let client' = JoinHostPort (ReceiverHost desc) (Itoa (ReqPort desc)) in
      if sessions proxy client' \<noteq> None
      then Some (Some (Errorf (''Session already exists for client '' @ client')), proxy)
      else
        (let rtcpClient = JoinHostPort (ReceiverHost desc) (Itoa (go_add (ReqPort desc) 1)) in
         case NewUdpProxyPair (proxyHost proxy) client' rtcpClient minPort maxPort (net proxy) of
           None \<Rightarrow> None
         | Some ((_, _, Some err), n) \<Rightarrow> Some (Some err, proxy\<lparr>net := n\<rparr>)
         | Some ((None, _, None), n) \<Rightarrow> None
         | Some ((Some _, None, None), n) \<Rightarrow> None
         | Some ((Some rtpProxy0, Some rtcpProxy0, None), n) \<Rightarrow>
             (let proxy1 = proxy\<lparr>net := n\<rparr>;
                  rtpProxy' = Start rtpProxy0;
                  rtcpProxy' = Start rtcpProxy0;
                  rtpPort = Port (listenAddr rtpProxy');
                  mediaURL = resolve_reference proxy1 (rtspURL proxy1) (MediaFile desc);
                  logfile = ''amp-proxy-'' @ Itoa rtpPort @ ''-'' @ MediaFile desc @ ''.log''
              in case StartRtspClient mediaURL rtpPort logfile proxy1 of
                   Inl err \<Rightarrow>
                     Some (Some (Errorf (''Failed to start RTSP client: '' @ Error_text err)),
                           proxy1)
                 | Inr rtsp \<Rightarrow>
                     (let session = \<lparr>backend = rtsp, rtpProxy = rtpProxy',
                                      rtcpProxy = rtcpProxy', port = ReqPort desc,
                                      mediaFile = MediaFile desc, client = client'\<rparr>;
                          p = length (heap proxy1);
                          proxy2 = proxy1\<lparr>heap := heap proxy1 @ [session],
                                          sessions := (sessions proxy1)(client' \<mapsto> p)\<rparr>
                      in Some (None, observe p proxy2)))))"

definition cleanupSession :: "nat \<Rightarrow> AmpProxy \<Rightarrow> AmpProxy" where
  "cleanupSession session proxy =
     (let ses = heap proxy ! session;
          backend' = RtspClient_Stop (backend ses) in
      case Close (rtpProxy ses, net proxy) of (rtpProxy', n1) \<Rightarrow>
      case Close (rtcpProxy ses, n1) of (rtcpProxy', n2) \<Rightarrow>
        proxy\<lparr>heap := (heap proxy)[session := ses\<lparr>backend := backend',
                                                   rtpProxy := rtpProxy',
                                                   rtcpProxy := rtcpProxy'\<rparr>],
              net := n2,
              sessions := (sessions proxy)(client ses := None)\<rparr>)"

definition stopSession :: "'a StopSessionValue_scheme \<Rightarrow> AmpProxy \<Rightarrow> error option \<times> AmpProxy" where
  "stopSession desc proxy =
     (let client' = JoinHostPort (ReceiverHost desc) (Itoa (ReqPort desc)) in
      case sessions proxy client' of
        None \<Rightarrow> (Some (Errorf (''Session not found for client '' @ client')), proxy)
      | Some session \<Rightarrow> (None, cleanupSession session proxy))"

text \<open>
  The body of the watcher that \<open>observe\<close> starts, run when the channel of the backend
  signals its end; \<open>backend_terminates\<close> is the backend ending on its own, which wakes
  the watcher.
\<close>

definition watcher :: "nat \<Rightarrow> AmpProxy \<Rightarrow> AmpProxy" where
  "watcher session proxy =
     (if session \<in> set (watchers proxy) \<and> session < length (heap proxy) then
        (let rtsp = backend (heap proxy ! session);
             proxy1 = proxy\<lparr>watchers := remove1 session (watchers proxy)\<rparr>;
             proxy2 = (if RtspEndedCallback proxy1
                       then proxy1\<lparr>hooks := RtspEnded rtsp # hooks proxy1\<rparr> else proxy1)
         in cleanupSession session proxy2)
      else proxy)"

definition backend_terminates :: "nat \<Rightarrow> AmpProxy \<Rightarrow> AmpProxy" where
  "backend_terminates session proxy =
     (if session < length (heap proxy) then
        (let ses = heap proxy ! session in
         watcher session
           (proxy\<lparr>heap := (heap proxy)[session := ses\<lparr>backend := (backend ses)\<lparr>rtsp_running := False\<rparr>\<rparr>]\<rparr>))
      else proxy)"


section \<open>The session registry (protocols/session.go)\<close>

text \<open>
  A session is an object of the user of the registry. Its methods return nothing and
  act on a state \<open>'u\<close> of that user, so \<open>Start\<close> and the \<open>Stop\<close> of an observee are
  functions on \<open>'u\<close>. The field \<open>CleanupErr\<close> of a \<open>SessionBase\<close> is exported and
  \<open>NewSession\<close> returns the pointer, so the session can store an error there while it
  cleans up: \<open>Cleanup\<close> is a function on that field of its own entry together with
  \<open>'u\<close>.
\<close>

text \<open>
  Modelled from the spec: the interface \<open>helpers.Observee\<close> is not among the sources.
  The spec calls an observee "any component that can be told to stop and that can
  report, via a shared completion tracker, when it has stopped"; \<open>obs_Stop\<close> is the
  request to stop.
\<close>

record 'u Observee =
  obs_Stop :: "'u \<Rightarrow> 'u"

record 'u Session =
  session_Start :: "'u \<Rightarrow> 'u"
  Observees :: "'u Observee list"
  Cleanup :: "error option \<times> 'u \<Rightarrow> error option \<times> 'u"

text \<open>
  Modelled from the spec: the one-shot condition \<open>helpers.OneshotCondition\<close> is not
  among the sources. The spec has the stop gate go "monotonically from armed to fired
  exactly once", with "an atomic state transition (e.g., compare-and-swap from armed to
  fired) guarding the cleanup body, combined with a blocking wait for any late callers so
  they observe the outcome". \<open>Firing\<close> is the gate while the body runs.
\<close>

datatype OneshotCondition = Armed | Firing | Fired

definition NewOneshotCondition :: OneshotCondition where
  "NewOneshotCondition = Armed"

definition Enabled :: "OneshotCondition \<Rightarrow> bool" where
  "Enabled c = (c = Fired)"

text \<open>\<open>Enable\<close> by a caller that runs alone until it returns.\<close>

definition Enable :: "('w \<Rightarrow> 'w) \<Rightarrow> OneshotCondition \<times> 'w \<Rightarrow> OneshotCondition \<times> 'w" where
  "Enable perform cw =
     (case cw of (c, w) \<Rightarrow> if c = Armed then (Fired, perform w) else (c, w))"

text \<open>
  \<open>Wg.Wait()\<close> returns when every observed observee has reported its end; an observee
  that was asked to stop is taken to end, so waiting changes nothing in \<open>'u\<close>.
\<close>

definition Wg_Wait :: "'u \<Rightarrow> 'u" where
  "Wg_Wait u = u"

record 'u SessionBase =
  Stopped :: OneshotCondition
  CleanupErr :: "error option"
  session :: "'u Session"

text \<open>
  The registry: the map \<open>Sessions\<close> from a key to a pointer, an index into \<open>objects\<close>,
  the \<open>SessionBase\<close> values made so far; \<open>observers\<close>, the pointers whose watcher of
  \<open>observe\<close> still waits for an observee to end; and the state of the user.
\<close>

record ('k, 'u) registry =
  Sessions :: "'k \<rightharpoonup> nat"
  objects :: "'u SessionBase list"
  observers :: "nat list"
  user :: "'u"

text \<open>The function that \<open>Stop\<close> hands to the gate, on the cleanup error of the entry
  and the state of the user.\<close>

definition stop_body :: "'u Session \<Rightarrow> error option \<times> 'u \<Rightarrow> error option \<times> 'u" where
  "stop_body ses eu =
     (case eu of (e, u) \<Rightarrow>
        Cleanup ses (e, Wg_Wait (fold obs_Stop (Observees ses) u)))"

definition Stop :: "nat \<Rightarrow> ('k, 'u) registry \<Rightarrow> ('k, 'u) registry" where
  "Stop base r =
     (let b = objects r ! base in
      case Enable (stop_body (session b)) (Stopped b, (CleanupErr b, user r)) of
        (c, (e, u)) \<Rightarrow>
          r\<lparr>objects := (objects r)[base := b\<lparr>Stopped := c, CleanupErr := e\<rparr>],
            user := u\<rparr>)"

definition registry_observe :: "nat \<Rightarrow> ('k, 'u) registry \<Rightarrow> ('k, 'u) registry" where
  "registry_observe base r =
     (if length (Observees (session (objects r ! base))) < 1 then r
      else r\<lparr>observers := base # observers r\<rparr>)"

definition NewSession :: "'k \<Rightarrow> 'u Session \<Rightarrow> ('k, 'u) registry \<Rightarrow> nat \<times> ('k, 'u) registry" where
  "NewSession key ses r =
     (let base = length (objects r);
          r1 = r\<lparr>objects := objects r @ [\<lparr>Stopped = NewOneshotCondition,
                                            CleanupErr = None, session = ses\<rparr>]\<rparr>;
          r2 = r1\<lparr>Sessions := (Sessions r1)(key \<mapsto> base)\<rparr>;
          r3 = registry_observe base r2
      in (base, r3\<lparr>user := session_Start ses (user r3)\<rparr>))"

definition Get :: "'k \<Rightarrow> ('k, 'u) registry \<Rightarrow> 'u Session option" where
  "Get key r =
     (case Sessions r key of
        Some base \<Rightarrow> Some (session (objects r ! base))
      | None \<Rightarrow> None)"

text \<open>\<open>fmtv\<close> is the text that \<open>%v\<close> of package \<open>fmt\<close> gives for a key.\<close>

definition StopSession ::
  "('k \<Rightarrow> string) \<Rightarrow> 'k \<Rightarrow> ('k, 'u) registry \<Rightarrow> error option \<times> ('k, 'u) registry" where
  "StopSession fmtv key r =
     (case Sessions r key of
        None \<Rightarrow> (Some (Errorf (''No session found for '' @ fmtv key)), r)
      | Some base \<Rightarrow>
          if Enabled (Stopped (objects r ! base)) then
            (let errStr = (case CleanupErr (objects r ! base) of
                             None \<Rightarrow> ''(no error)''
                           | Some e \<Rightarrow> Error_text e);
                 err = Some (Errorf (''Session stopped prematurely: '' @ errStr))
             in (err, r\<lparr>Sessions := (Sessions r)(key := None)\<rparr>))
          else
            (let r1 = Stop base r;
                 err = CleanupErr (objects r1 ! base)
             in (err, r1\<lparr>Sessions := (Sessions r1)(key := None)\<rparr>)))"

text \<open>
  The watcher of \<open>observe\<close>. Modelled from the spec: \<open>helpers.WaitForAnyObservee\<close>
  is not among the sources; the watcher "blocks until any one observee finishes, then
  fires the entry's stop gate". \<open>watcher_fires\<close> is that moment: an observee of the
  session has ended and the watcher calls \<open>Stop\<close>.
\<close>

definition watcher_fires :: "nat \<Rightarrow> ('k, 'u) registry \<Rightarrow> ('k, 'u) registry" where
  "watcher_fires base r =
     (if base \<in> set (observers r) \<and> base < length (objects r)
      then Stop base (r\<lparr>observers := remove1 base (observers r)\<rparr>)
      else r)"

subsection \<open>Callers that race for the gate\<close>

text \<open>
  Any number of callers of \<open>Stop\<close> on one \<open>SessionBase\<close>, run in any interleaving. A
  caller that finds the gate armed takes it in one atomic step and then runs the body,
  one action per step: \<open>Stop\<close> of each observee in turn, then \<open>Wg.Wait()\<close>, then
  \<open>Cleanup\<close>; its last step marks the gate fired. A caller that finds the gate taken
  waits until it has fired and returns. \<open>ustate\<close> is the cleanup error of the entry
  with the state of the user, and \<open>trace\<close> lists the actions of the body in the order
  they were run, each by its position in the body.
\<close>

datatype caller = Calling | Running nat | Returned

record 'u race =
  gate :: OneshotCondition
  callers :: "caller list"
  ustate :: "error option \<times> 'u"
  trace :: "nat list"

definition body_length :: "'u Session \<Rightarrow> nat" where
  "body_length ses = length (Observees ses) + 2"

definition cleanup_index :: "'u Session \<Rightarrow> nat" where
  "cleanup_index ses = length (Observees ses) + 1"

definition body_action ::
  "'u Session \<Rightarrow> nat \<Rightarrow> error option \<times> 'u \<Rightarrow> error option \<times> 'u" where
  "body_action ses k eu =
     (case eu of (e, u) \<Rightarrow>
        if k < length (Observees ses) then (e, obs_Stop (Observees ses ! k) u)
        else if k = length (Observees ses) then (e, Wg_Wait u)
        else Cleanup ses (e, u))"

definition race_step :: "'u Session \<Rightarrow> nat \<Rightarrow> 'u race \<Rightarrow> 'u race option" where
  "race_step ses t s =
     (if t \<ge> length (callers s) then None
      else case callers s ! t of
        Calling \<Rightarrow>
          (case gate s of
             Armed \<Rightarrow> Some (s\<lparr>gate := Firing, callers := (callers s)[t := Running 0]\<rparr>)
           | Firing \<Rightarrow> None
           | Fired \<Rightarrow> Some (s\<lparr>callers := (callers s)[t := Returned]\<rparr>))
      | Running k \<Rightarrow>
          if k < body_length ses
          then Some (s\<lparr>ustate := body_action ses k (ustate s),
                       trace := trace s @ [k],
                       callers := (callers s)[t := Running (Suc k)]\<rparr>)
          else Some (s\<lparr>gate := Fired, callers := (callers s)[t := Returned]\<rparr>)
      | Returned \<Rightarrow> None)"

text \<open>A schedule names the caller that moves next; a caller that cannot move is
  passed over.\<close>

fun race_run :: "'u Session \<Rightarrow> nat list \<Rightarrow> 'u race \<Rightarrow> 'u race" where
  "race_run ses [] s = s"
| "race_run ses (t # ts) s =
     race_run ses ts (case race_step ses t s of None \<Rightarrow> s | Some s' \<Rightarrow> s')"

definition race_init :: "nat \<Rightarrow> error option \<times> 'u \<Rightarrow> 'u race" where
  "race_init n eu = \<lparr>gate = Armed, callers = replicate n Calling, ustate = eu, trace = []\<rparr>"

section \<open>Notions used in the statements\<close>

text \<open>
  \<open>live_pair\<close>: the two relays \<open>a\<close> and \<open>b\<close> came out of one successful pass at port
  \<open>p\<close> from the network \<open>s\<close>: both are open, their four sockets are the newest of
  \<open>s'\<close>, and their addresses are what the names resolve to.
\<close>

definition live_pair :: "string \<Rightarrow> string \<Rightarrow> string \<Rightarrow> int \<Rightarrow> netstate \<Rightarrow> UdpProxy \<Rightarrow> UdpProxy \<Rightarrow> netstate \<Rightarrow> bool" where
  "live_pair h t1 t2 p s a b s' =
     (\<not> Closed a \<and> \<not> Closed b \<and> \<not> closeOnce a \<and> \<not> closeOnce b
      \<and> s' = s\<lparr>conns := targetConn b # listenConn b # targetConn a # listenConn a # conns s\<rparr>
      \<and> resolve s (JoinHostPort h (Itoa p)) = Inr (listenAddr a)
      \<and> resolve s (JoinHostPort h (Itoa (go_add p 1))) = Inr (listenAddr b)
      \<and> resolve s t1 = Inr (targetAddr a)
      \<and> resolve s t2 = Inr (targetAddr b))"

text \<open>A relay after the body of \<open>doclose\<close> has run for \<open>Close\<close>.\<close>

definition closed_relay :: "UdpProxy \<Rightarrow> UdpProxy" where
  "closed_relay a = a\<lparr>closeOnce := True, Err := None, Closed := True,
                      proxyClosed := Suc (proxyClosed a),
                      Stats := (Stats a)\<lparr>stats_stopped := True\<rparr>\<rparr>"

text \<open>The error that \<open>NewUdpProxyPair\<close> builds when it gives up.\<close>

definition exhausted :: "int \<Rightarrow> int \<Rightarrow> error" where
  "exhausted p mp =
     Errorf (''Failed to allocate UDP proxy pair in port range '' @ Itoa p @ ''-'' @ Itoa mp)"

text \<open>
  What holds of the callers of a gate in every state they can reach from \<open>n\<close> callers
  and the state \<open>u\<close>: while the gate is armed nobody has moved; while it fires, exactly
  one caller is in the body, has run its first \<open>k\<close> actions, and the others still call;
  once it has fired, the whole body has run and nobody is in it.
\<close>

definition race_inv :: "'u Session \<Rightarrow> nat \<Rightarrow> error option \<times> 'u \<Rightarrow> 'u race \<Rightarrow> bool" where
  "race_inv ses n u s =
     (length (callers s) = n
      \<and> ustate s = fold (body_action ses) (trace s) u
      \<and> (case gate s of
            Armed \<Rightarrow> (\<forall>t<n. callers s ! t = Calling) \<and> trace s = []
          | Firing \<Rightarrow>
              (\<exists>t k. t < n \<and> callers s ! t = Running k \<and> k \<le> body_length ses
                     \<and> trace s = [0..<k]
                     \<and> (\<forall>t'<n. t' \<noteq> t \<longrightarrow> callers s ! t' = Calling))
          | Fired \<Rightarrow>
              (\<forall>t<n. callers s ! t = Calling \<or> callers s ! t = Returned)
              \<and> trace s = [0..<body_length ses]))"

section \<open>Example inputs\<close>

text \<open>
  A resolver for numeric addresses \<open>host:port\<close> with a port of at most 65535, a
  bind that fails on an address this process has bound already, and networks where
  every other port is free, where every port is taken, and where \<open>10.0.0.1:20001\<close> is
  taken as well.
\<close>

definition parse_port :: "string \<Rightarrow> int option" where
  "parse_port p =
     (if p = [] \<or> (\<exists>c \<in> set p. of_char c < (48::nat) \<or> (57::nat) < of_char c) then None
      else (let n = foldl (\<lambda>acc c. 10 * acc + (int (of_char c) - 48)) 0 p
            in if n > 65535 then None else Some n))"

definition resolve_numeric :: "string \<Rightarrow> UDPAddr option" where
  "resolve_numeric a =
     (if CHR '':'' \<notin> set a then None
      else (let p = rev (takeWhile (\<lambda>c. c \<noteq> CHR '':'') (rev a));
                h = rev (drop 1 (dropWhile (\<lambda>c. c \<noteq> CHR '':'') (rev a)))
            in case parse_port p of None \<Rightarrow> None
               | Some n \<Rightarrow> Some \<lparr>IP = h, Port = n\<rparr>))"

definition resolve_example :: "string \<Rightarrow> error + UDPAddr" where
  "resolve_example a =
     (case resolve_numeric a of
        None \<Rightarrow> Inl (Errorf (''cannot resolve '' @ a))
      | Some u \<Rightarrow> Inr u)"

definition in_use :: "UDPAddr \<Rightarrow> conn list \<Rightarrow> error option" where
  "in_use a cs =
     (if ListenConn a \<in> set cs then Some (Errorf ''bind: address already in use'') else None)"

definition free_net :: netstate where
  "free_net = \<lparr>resolve = resolve_example, listen_error = in_use,
                dial_error = (\<lambda>a cs. None), conns = []\<rparr>"

definition busy_net :: netstate where
  "busy_net = \<lparr>resolve = resolve_example,
                listen_error = (\<lambda>a cs. Some (Errorf ''bind: address already in use'')),
                dial_error = (\<lambda>a cs. None), conns = []\<rparr>"

definition half_busy_net :: netstate where
  "half_busy_net =
     \<lparr>resolve = resolve_example,
      listen_error = (\<lambda>a cs. if a = \<lparr>IP = ''10.0.0.1'', Port = 20001\<rparr>
                              then Some (Errorf ''bind: address already in use'')
                              else in_use a cs),
      dial_error = (\<lambda>a cs. None), conns = []\<rparr>"

text \<open>A relay as \<open>NewUdpProxy\<close> returns it, and the network with the sockets of
  two relays on the ports 20000 and 20001.\<close>

definition relay_at :: "UDPAddr \<Rightarrow> UDPAddr \<Rightarrow> string \<Rightarrow> UdpProxy" where
  "relay_at l t n =
     \<lparr>listenConn = ListenConn l, listenAddr = l, targetConn = TargetConn t, targetAddr = t,
      closeOnce = False, proxyClosed = 0, Closed = False, Err = None,
      Stats = NewStats (''UDP Proxy '' @ n)\<rparr>"

definition two_relays_net :: netstate where
  "two_relays_net =
     free_net\<lparr>conns := [TargetConn \<lparr>IP = ''127.0.0.1'', Port = 6001\<rparr>,
                         ListenConn \<lparr>IP = ''10.0.0.1'', Port = 20001\<rparr>,
                         TargetConn \<lparr>IP = ''127.0.0.1'', Port = 6000\<rparr>,
                         ListenConn \<lparr>IP = ''10.0.0.1'', Port = 20000\<rparr>]\<rparr>"

definition example_net :: netstate where
  "example_net = \<lparr>resolve = resolve_example, listen_error = in_use,
     dial_error = (\<lambda>a cs. None),
     conns = [TargetConn \<lparr>IP = ''127.0.0.1'', Port = 6000\<rparr>,
              ListenConn \<lparr>IP = ''10.0.0.1'', Port = 20000\<rparr>]\<rparr>"

definition example_relay :: UdpProxy where
  "example_relay =
     \<lparr>listenConn = ListenConn \<lparr>IP = ''10.0.0.1'', Port = 20000\<rparr>,
      listenAddr = \<lparr>IP = ''10.0.0.1'', Port = 20000\<rparr>,
      targetConn = TargetConn \<lparr>IP = ''127.0.0.1'', Port = 6000\<rparr>,
      targetAddr = \<lparr>IP = ''127.0.0.1'', Port = 6000\<rparr>,
      closeOnce = False, proxyClosed = 0, Closed = False, Err = None,
      Stats = NewStats ''UDP Proxy 10.0.0.1:20000''\<rparr>"

text \<open>A proxy with no session, the same proxy with a backend that refuses to start,
  a start request, and the proxy after that request.\<close>

definition example_desc :: StartSessionValue where
  "example_desc = \<lparr>ReceiverHost = ''127.0.0.1'', ReqPort = 6000, MediaFile = ''movie.ts''\<rparr>"

definition example_proxy :: AmpProxy where
  "example_proxy =
     \<lparr>rtspURL = ''rtsp://media.example:554/'', proxyHost = ''10.0.0.1'',
      sessions = Map.empty, RtspStartedCallback = False, RtspEndedCallback = False,
      heap = [], watchers = [], hooks = [], net = free_net,
      rtsp_start_error = (\<lambda>url rtpPort logfile. None),
      resolve_reference = (\<lambda>base path. base @ path)\<rparr>"

definition backend_down_proxy :: AmpProxy where
  "backend_down_proxy =
     example_proxy\<lparr>rtsp_start_error :=
       (\<lambda>url rtpPort logfile. Some (Errorf ''dial tcp media.example:554: connection refused''))\<rparr>"

definition example_session :: proxySession where
  "example_session =
     \<lparr>backend = \<lparr>rtsp_url = ''rtsp://media.example:554/movie.ts'', rtsp_port = 20000,
                  rtsp_logfile = ''amp-proxy-20000-movie.ts.log'', rtsp_running = True\<rparr>,
      rtpProxy = relay_at \<lparr>IP = ''10.0.0.1'', Port = 20000\<rparr>
                   \<lparr>IP = ''127.0.0.1'', Port = 6000\<rparr> ''10.0.0.1:20000'',
      rtcpProxy = relay_at \<lparr>IP = ''10.0.0.1'', Port = 20001\<rparr>
                   \<lparr>IP = ''127.0.0.1'', Port = 6001\<rparr> ''10.0.0.1:20001'',
      port = 6000, mediaFile = ''movie.ts'', client = ''127.0.0.1:6000''\<rparr>"

definition started_proxy :: AmpProxy where
  "started_proxy =
     (case startSession example_desc example_proxy of
        Some (err, proxy) \<Rightarrow> proxy
      | None \<Rightarrow> example_proxy)"

text \<open>
  A session whose cleanup meets an error and leaves it in the state of its user only,
  a session whose cleanup stores the error in the cleanup error of its entry, a registry
  for each, and a session that logs the calls it gets.
\<close>

definition failing_session :: "(error option) Session" where
  "failing_session =
     \<lparr>session_Start = (\<lambda>u. u),
      Observees = [\<lparr>obs_Stop = (\<lambda>u. u)\<rparr>],
      Cleanup = (\<lambda>(e, u). (e, Some (Errorf ''close udp 10.0.0.1:20000: socket busy'')))\<rparr>"

definition storing_session :: "(error option) Session" where
  "storing_session =
     \<lparr>session_Start = (\<lambda>u. u),
      Observees = [],
      Cleanup = (\<lambda>(e, u). (Some (Errorf ''close udp 10.0.0.1:20000: socket busy''), u))\<rparr>"

definition empty_registry :: "(string, error option) registry" where
  "empty_registry = \<lparr>Sessions = Map.empty, objects = [], observers = [], user = None\<rparr>"

definition example_registry :: "(string, error option) registry" where
  "example_registry = snd (NewSession ''127.0.0.1:6000'' failing_session empty_registry)"

definition storing_registry :: "(string, error option) registry" where
  "storing_registry = snd (NewSession ''127.0.0.1:6000'' storing_session empty_registry)"

definition logging_session :: "(string list) Session" where
  "logging_session =
     \<lparr>session_Start = (\<lambda>u. u @ [''start'']),
      Observees = [\<lparr>obs_Stop = (\<lambda>u. u @ [''stop backend''])\<rparr>],
      Cleanup = (\<lambda>(e, u). (e, u @ [''cleanup'']))\<rparr>"


section \<open>Properties\<close>

subsection \<open>Closing a relay\<close>

lemma doclose_done: "closeOnce proxy \<Longrightarrow> doclose err (proxy, s) = (proxy, s)"
  by (simp add: doclose_def)

lemma relay_step_doclose: "relay_step e ps = doclose (event_error e) ps"
  by (cases e) (simp_all add: Close_def)

lemma relay_run_done: "closeOnce proxy \<Longrightarrow> relay_run es (proxy, s) = (proxy, s)"
  by (induction es) (simp_all add: relay_step_doclose doclose_done)

lemma doclose_fresh:
  "\<not> closeOnce proxy \<Longrightarrow>
     closeOnce (fst (doclose err (proxy, s))) \<and> Closed (fst (doclose err (proxy, s)))
     \<and> Err (fst (doclose err (proxy, s))) = err
     \<and> proxyClosed (fst (doclose err (proxy, s))) = Suc (proxyClosed proxy)"
  by (simp add: doclose_def)

lemma relay_run_first:
  assumes "\<not> closeOnce proxy"
  shows "relay_run (e # es) (proxy, s) = doclose (event_error e) (proxy, s)"
proof -
  obtain p' s' where d: "doclose (event_error e) (proxy, s) = (p', s')"
    by (cases "doclose (event_error e) (proxy, s)")
  with doclose_fresh [OF assms, of "event_error e" s] have "closeOnce p'" by simp
  then show ?thesis by (simp add: relay_step_doclose d relay_run_done)
qed

lemma relay_run_append: "relay_run (es @ es') ps = relay_run es' (relay_run es ps)"
  by (induction es arbitrary: ps) simp_all

lemma doclose_keeps_Closed: "Closed (fst ps) \<Longrightarrow> Closed (fst (doclose err ps))"
  by (cases ps) (simp add: doclose_def)

lemma relay_run_keeps_Closed: "Closed (fst ps) \<Longrightarrow> Closed (fst (relay_run es ps))"
  by (induction es arbitrary: ps) (simp_all add: relay_step_doclose doclose_keeps_Closed)

text \<open>
  C8. Over any number of \<open>Close\<close> calls and of closes that a failed read or write
  triggers, on a relay whose \<open>closeOnce\<close> has not run, the body of \<open>doclose\<close> runs at
  most once: at most one value is ever sent to \<open>proxyClosed\<close>. When there is a first
  close, the whole outcome is that of this close alone: both sockets leave the open
  sockets, \<open>Closed\<close> is set, and \<open>Err\<close> is the error of the first close (\<open>nil\<close> for
  \<open>Close\<close>), whatever closes follow. A relay that is closed stays closed.
\<close>

theorem relay_close_once:
  assumes fresh: "\<not> closeOnce proxy"
  shows "proxyClosed (fst (relay_run es (proxy, s))) \<le> Suc (proxyClosed proxy)
       \<and> (\<forall>e es'. es = e # es' \<longrightarrow>
             relay_run es (proxy, s) = doclose (event_error e) (proxy, s)
           \<and> proxyClosed (fst (relay_run es (proxy, s))) = Suc (proxyClosed proxy)
           \<and> Closed (fst (relay_run es (proxy, s)))
           \<and> Err (fst (relay_run es (proxy, s))) = event_error e
           \<and> conns (snd (relay_run es (proxy, s)))
               = remove1 (targetConn proxy) (remove1 (listenConn proxy) (conns s)))
       \<and> (\<forall>es2. Closed (fst (relay_run es (proxy, s)))
             \<longrightarrow> Closed (fst (relay_run (es @ es2) (proxy, s))))"
proof (intro conjI allI impI)
  show "proxyClosed (fst (relay_run es (proxy, s))) \<le> Suc (proxyClosed proxy)"
  proof (cases es)
    case Nil
    then show ?thesis by simp
  next
    case (Cons e es')
    with relay_run_first [OF fresh, of e es' s] doclose_fresh [OF fresh, of "event_error e" s]
    show ?thesis by simp
  qed
next
  fix e es' assume es: "es = e # es'"
  show "relay_run es (proxy, s) = doclose (event_error e) (proxy, s)"
    using relay_run_first [OF fresh, of e es' s] es by simp
  then show "proxyClosed (fst (relay_run es (proxy, s))) = Suc (proxyClosed proxy)"
    and "Closed (fst (relay_run es (proxy, s)))"
    and "Err (fst (relay_run es (proxy, s))) = event_error e"
    using doclose_fresh [OF fresh, of "event_error e" s] by simp_all
  show "conns (snd (relay_run es (proxy, s)))
          = remove1 (targetConn proxy) (remove1 (listenConn proxy) (conns s))"
    using relay_run_first [OF fresh, of e es' s] es fresh
    by (simp add: doclose_def conn_Close_def)
next
  fix es2 assume "Closed (fst (relay_run es (proxy, s)))"
  then show "Closed (fst (relay_run (es @ es2) (proxy, s)))"
    by (simp add: relay_run_append relay_run_keeps_Closed)
qed

text \<open>C8 on a relay that a failed read closes first: the later closes change nothing.\<close>

theorem relay_close_once_witness:
  "\<not> closeOnce example_relay
   \<and> Err (fst (relay_run [ReadFailed (Errorf ''EOF''), CallClose, WriteFailed (Errorf ''closed'')]
                 (example_relay, example_net))) = Some (Errorf ''EOF'')
   \<and> proxyClosed (fst (relay_run [ReadFailed (Errorf ''EOF''), CallClose, WriteFailed (Errorf ''closed'')]
                 (example_relay, example_net))) = 1
   \<and> conns (snd (relay_run [ReadFailed (Errorf ''EOF''), CallClose, WriteFailed (Errorf ''closed'')]
                 (example_relay, example_net))) = []"
proof -
  have fresh: "\<not> closeOnce example_relay" by (simp add: example_relay_def)
  show ?thesis
    using fresh relay_close_once [OF fresh,
      of "[ReadFailed (Errorf ''EOF''), CallClose, WriteFailed (Errorf ''closed'')]" example_net]
    by (simp add: example_relay_def example_net_def doclose_def conn_Close_def)
qed


subsection \<open>Allocating a pair of relays\<close>

lemma NewUdpProxy_Inl:
  "NewUdpProxy a t s = (Inl e, s') \<Longrightarrow> s' = s"
  by (auto simp: NewUdpProxy_def ResolveUDPAddr_def ListenUDP_def DialUDP_def conn_Close_def
      split: option.splits if_splits sum.splits prod.splits)

lemma NewUdpProxy_Inr:
  "NewUdpProxy a t s = (Inr p, s') \<Longrightarrow>
     s' = s\<lparr>conns := targetConn p # listenConn p # conns s\<rparr>
     \<and> \<not> closeOnce p \<and> \<not> Closed p \<and> Err p = None \<and> proxyClosed p = 0
     \<and> listenConn p = ListenConn (listenAddr p) \<and> targetConn p = TargetConn (targetAddr p)
     \<and> resolve s a = Inr (listenAddr p) \<and> resolve s t = Inr (targetAddr p)"
  by (auto simp: NewUdpProxy_def ResolveUDPAddr_def ListenUDP_def DialUDP_def conn_Close_def
      split: option.splits if_splits sum.splits prod.splits)

lemma Close_after_open:
  assumes "listenConn a = ListenConn la" and "targetConn a = TargetConn ta"
    and "\<not> closeOnce a"
  shows "Close (a, s\<lparr>conns := targetConn a # listenConn a # conns s\<rparr>)
           = (a\<lparr>closeOnce := True, Err := None, Closed := True,
                 proxyClosed := Suc (proxyClosed a),
                 Stats := (Stats a)\<lparr>stats_stopped := True\<rparr>\<rparr>, s)"
  using assms by (simp add: Close_def doclose_def conn_Close_def)

lemma pair_attempt_cases:
  assumes "pair_attempt h t1 t2 p s = ((p1, p2, err), s')"
  shows "(err = None \<and> (\<exists>a b. p1 = Some a \<and> p2 = Some b \<and> live_pair h t1 t2 p s a b s'))
       \<or> (err \<noteq> None \<and> p2 = None \<and> s' = s \<and> (\<forall>a. p1 = Some a \<longrightarrow> Closed a))"
proof (cases "NewUdpProxy (JoinHostPort h (Itoa p)) t1 s")
  case (Pair r1 s1)
  show ?thesis
  proof (cases r1)
    case (Inl e)
    with Pair NewUdpProxy_Inl [of "JoinHostPort h (Itoa p)" t1 s e s1] assms show ?thesis
      by (auto simp: pair_attempt_def)
  next
    case (Inr a)
    note a = NewUdpProxy_Inr [OF Pair [unfolded Inr]]
    show ?thesis
    proof (cases "NewUdpProxy (JoinHostPort h (Itoa (go_add p 1))) t2 s1")
      case (Pair r2 s2)
      note P2 = this
      show ?thesis
      proof (cases r2)
        case (Inl e)
        from NewUdpProxy_Inl [OF P2 [unfolded Inl]] have s2: "s2 = s1" .
        have c: "Close (a, s1) = (a\<lparr>closeOnce := True, Err := None, Closed := True,
                 proxyClosed := Suc (proxyClosed a),
                 Stats := (Stats a)\<lparr>stats_stopped := True\<rparr>\<rparr>, s)"
          using a Close_after_open [of a "listenAddr a" "targetAddr a" s] by simp
        from assms show ?thesis
          using \<open>NewUdpProxy (JoinHostPort h (Itoa p)) t1 s = (r1, s1)\<close> Inr P2 Inl s2 c
          by (auto simp: pair_attempt_def)
      next
        case (Inr b)
        note b = NewUdpProxy_Inr [OF P2 [unfolded Inr]]
        from assms show ?thesis
          using \<open>NewUdpProxy (JoinHostPort h (Itoa p)) t1 s = (r1, s1)\<close> \<open>r1 = Inr a\<close> P2 Inr a b
          by (auto simp: pair_attempt_def live_pair_def)
      qed
    qed
  qed
qed

lemma go_add_in_range:
  assumes "MinInt \<le> a + b" and "a + b \<le> MaxInt"
  shows "go_add a b = a + b"
proof -
  have "0 \<le> a + b + 2 ^ 63" and "a + b + 2 ^ 63 < 2 ^ 64"
    using assms by (simp_all add: MinInt_def MaxInt_def)
  then have "(a + b + 2 ^ 63) mod 2 ^ 64 = a + b + 2 ^ 63"
    by (rule mod_pos_pos_trivial)
  then show ?thesis by (simp add: go_add_def)
qed

lemma NewUdpProxyPair_returns:
  assumes "MinInt \<le> sp" and "sp \<le> MaxInt - 2" and "mp \<le> MaxInt - 2"
  shows "\<exists>y. NewUdpProxyPair h t1 t2 sp mp s = Some y"
  using assms
proof (induction "nat (mp + 2 - sp)" arbitrary: sp s rule: less_induct)
  case less
  obtain p1 p2 err s' where pa: "pair_attempt h t1 t2 sp s = ((p1, p2, err), s')"
    by (metis prod_cases3 surj_pair)
  have g: "go_add sp 2 = sp + 2"
    using less.prems by (intro go_add_in_range) (simp_all add: MinInt_def MaxInt_def)
  show ?case
  proof (cases "err = None \<or> mp < sp + 2")
    case True
    then show ?thesis
      by (subst NewUdpProxyPair.simps) (auto simp: pa g Let_def)
  next
    case False
    then have "nat (mp + 2 - (sp + 2)) < nat (mp + 2 - sp)" by simp
    moreover have "MinInt \<le> sp + 2" "sp + 2 \<le> MaxInt - 2"
      using less.prems False by simp_all
    ultimately obtain y where "NewUdpProxyPair h t1 t2 (sp + 2) mp s' = Some y"
      using less.hyps [of "sp + 2" s'] less.prems(3) by blast
    with False have "NewUdpProxyPair h t1 t2 sp mp s = Some y"
      by (subst NewUdpProxyPair.simps) (auto simp: pa g Let_def)
    then show ?thesis by blast
  qed
qed

lemma NewUdpProxyPair_post:
  assumes "NewUdpProxyPair h t1 t2 sp mp s = Some ((p1, p2, err), s')"
  shows "(err = None \<and> (\<exists>a b q. p1 = Some a \<and> p2 = Some b \<and> live_pair h t1 t2 q s a b s'))
       \<or> ((\<exists>q. mp < q \<and> err = Some (exhausted q mp)) \<and> p2 = None \<and> s' = s
            \<and> (\<forall>a. p1 = Some a \<longrightarrow> Closed a))"
proof -
  let ?P = "\<lambda>h t1 t2 (sp::int) mp s y.
     case y of ((p1, p2, err), s') \<Rightarrow>
       (err = None \<and> (\<exists>a b q. p1 = Some a \<and> p2 = Some b \<and> live_pair h t1 t2 q s a b s'))
       \<or> ((\<exists>q. mp < q \<and> err = Some (exhausted q mp)) \<and> p2 = None \<and> s' = s
            \<and> (\<forall>a. p1 = Some a \<longrightarrow> Closed a))"
  have "?P h t1 t2 sp mp s ((p1, p2, err), s')"
  proof (rule NewUdpProxyPair.raw_induct [where P = ?P, OF _ assms])
    fix f h t1 t2 and sp mp :: int and s y
    assume IH: "\<And>h t1 t2 sp mp s y. f h t1 t2 sp mp s = Some y \<Longrightarrow> ?P h t1 t2 sp mp s y"
    assume step: "(case pair_attempt h t1 t2 sp s of
            ((proxy1, proxy2, err), s') \<Rightarrow>
              if err = None then Some ((proxy1, proxy2, None), s')
              else let startPort' = go_add sp 2
                   in if mp < startPort'
                      then Some ((proxy1, proxy2,
                              Some (Errorf (''Failed to allocate UDP proxy pair in port range '' @
                                  Itoa startPort' @ ''-'' @ Itoa mp))), s')
                      else f h t1 t2 startPort' mp s') = Some y"
    obtain q1 q2 e s1 where pa: "pair_attempt h t1 t2 sp s = ((q1, q2, e), s1)"
      by (metis prod_cases3 surj_pair)
    from pair_attempt_cases [OF pa] show "?P h t1 t2 sp mp s y"
    proof
      assume ok: "e = None \<and> (\<exists>a b. q1 = Some a \<and> q2 = Some b \<and> live_pair h t1 t2 sp s a b s1)"
      with step pa have "y = ((q1, q2, None), s1)" by simp
      with ok show ?thesis by auto
    next
      assume bad: "e \<noteq> None \<and> q2 = None \<and> s1 = s \<and> (\<forall>a. q1 = Some a \<longrightarrow> Closed a)"
      show ?thesis
      proof (cases "mp < go_add sp 2")
        case True
        with step pa bad have "y = ((q1, q2, Some (exhausted (go_add sp 2) mp)), s1)"
          by (auto simp: exhausted_def)
        with bad True show ?thesis by auto
      next
        case False
        with step pa bad have "f h t1 t2 (go_add sp 2) mp s = Some y" by auto
        from IH [OF this] show ?thesis by (auto split: prod.splits)
      qed
    qed
  qed
  then show ?thesis by simp
qed

lemma join_20000: "JoinHostPort ''10.0.0.1'' (Itoa 20000) = ''10.0.0.1:20000''"
  and join_20001: "JoinHostPort ''10.0.0.1'' (Itoa 20001) = ''10.0.0.1:20001''"
  and join_20002: "JoinHostPort ''10.0.0.1'' (Itoa 20002) = ''10.0.0.1:20002''"
  and join_20003: "JoinHostPort ''10.0.0.1'' (Itoa 20003) = ''10.0.0.1:20003''"
  by (simp_all add: JoinHostPort_def Itoa_def digit_char_def)

lemma resolve_20000: "resolve_example ''10.0.0.1:20000'' = Inr \<lparr>IP = ''10.0.0.1'', Port = 20000\<rparr>"
  and resolve_20001: "resolve_example ''10.0.0.1:20001'' = Inr \<lparr>IP = ''10.0.0.1'', Port = 20001\<rparr>"
  and resolve_20002: "resolve_example ''10.0.0.1:20002'' = Inr \<lparr>IP = ''10.0.0.1'', Port = 20002\<rparr>"
  and resolve_20003: "resolve_example ''10.0.0.1:20003'' = Inr \<lparr>IP = ''10.0.0.1'', Port = 20003\<rparr>"
  and resolve_6000: "resolve_example ''127.0.0.1:6000'' = Inr \<lparr>IP = ''127.0.0.1'', Port = 6000\<rparr>"
  and resolve_6001: "resolve_example ''127.0.0.1:6001'' = Inr \<lparr>IP = ''127.0.0.1'', Port = 6001\<rparr>"
  by (simp_all add: resolve_example_def resolve_numeric_def parse_port_def)

lemma exhausted_20004: "exhausted 20004 20002
    = Errorf ''Failed to allocate UDP proxy pair in port range 20004-20002''"
  by (simp add: exhausted_def Itoa_def digit_char_def)

lemma go_add_small:
  "go_add 20000 1 = 20001" "go_add 20000 2 = 20002" "go_add 20002 1 = 20003"
  "go_add 20002 2 = 20004"
  by (simp_all add: go_add_def)

lemmas example_joins = join_20000 join_20001 join_20002 join_20003

lemmas example_resolves = resolve_20000 resolve_20001 resolve_20002 resolve_20003
  resolve_6000 resolve_6001

lemma busy_attempt_20000:
  "pair_attempt ''10.0.0.1'' ''127.0.0.1:6000'' ''127.0.0.1:6001'' 20000 busy_net
     = ((None, None, Some (Errorf ''bind: address already in use'')), busy_net)"
  by (simp add: pair_attempt_def NewUdpProxy_def ResolveUDPAddr_def ListenUDP_def
      busy_net_def example_joins example_resolves)

lemma busy_attempt_20002:
  "pair_attempt ''10.0.0.1'' ''127.0.0.1:6000'' ''127.0.0.1:6001'' 20002 busy_net
     = ((None, None, Some (Errorf ''bind: address already in use'')), busy_net)"
  by (simp add: pair_attempt_def NewUdpProxy_def ResolveUDPAddr_def ListenUDP_def
      busy_net_def example_joins example_resolves)

text \<open>
  C4. The allocator is called for the ports from 20000 to 20002 on a network where
  every port is taken. It tries 20000 and 20002 and gives up, and the error names the
  range 20004-20002: the first number is \<open>startPort\<close> after the increments, the first
  value above \<open>maxPort\<close>, not the port the search started at.
\<close>

theorem exhaustion_names_incremented_port:
  "NewUdpProxyPair ''10.0.0.1'' ''127.0.0.1:6000'' ''127.0.0.1:6001'' 20000 20002 busy_net
     = Some ((None, None,
              Some (Errorf ''Failed to allocate UDP proxy pair in port range 20004-20002'')),
             busy_net)"
proof -
  have "NewUdpProxyPair ''10.0.0.1'' ''127.0.0.1:6000'' ''127.0.0.1:6001'' 20002 20002 busy_net
     = Some ((None, None, Some (exhausted 20004 20002)), busy_net)"
    by (subst NewUdpProxyPair.simps)
       (simp add: busy_attempt_20002 go_add_small exhausted_def)
  then show ?thesis
    by (subst NewUdpProxyPair.simps)
       (simp add: busy_attempt_20000 go_add_small exhausted_20004)
qed

lemma pair_attempt_second_fails:
  assumes 1: "NewUdpProxy (JoinHostPort h (Itoa p)) t1 s = (Inr a, s1)"
    and 2: "NewUdpProxy (JoinHostPort h (Itoa (go_add p 1))) t2 s1 = (Inl e, s2)"
  shows "pair_attempt h t1 t2 p s = ((Some (closed_relay a), None, Some e), s)"
proof -
  note a = NewUdpProxy_Inr [OF 1]
  from NewUdpProxy_Inl [OF 2] have s2: "s2 = s1" .
  have "Close (a, s1) = (closed_relay a, s)"
    using a Close_after_open [of a "listenAddr a" "targetAddr a" s]
    by (simp add: closed_relay_def)
  then show ?thesis
    using 1 2 s2 by (simp add: pair_attempt_def)
qed

text \<open>
  C6. Whenever the allocator returns, it returns either no error and two open relays,
  whose four sockets are the only new ones, or an error and the network as it found
  it. It does return when \<open>startPort\<close> and \<open>maxPort\<close> are at least two below the
  largest \<open>int\<close>, where the additions do not wrap around. In a pass where the first
  relay binds and the second does not, the first relay is closed and the network is
  back as it was before the pass, and from there the allocator gives up or tries the
  next pair.
\<close>

theorem allocation_all_or_nothing:
  "(\<forall>p1 p2 err s'.
       NewUdpProxyPair h t1 t2 sp mp s = Some ((p1, p2, err), s') \<longrightarrow>
         (err = None
            \<and> (\<exists>a b q. p1 = Some a \<and> p2 = Some b \<and> live_pair h t1 t2 q s a b s'))
         \<or> (err \<noteq> None \<and> s' = s))
   \<and> (MinInt \<le> sp \<and> sp \<le> MaxInt - 2 \<and> mp \<le> MaxInt - 2 \<longrightarrow>
        (\<exists>y. NewUdpProxyPair h t1 t2 sp mp s = Some y))
   \<and> (\<forall>p a s1 e s2.
         NewUdpProxy (JoinHostPort h (Itoa p)) t1 s = (Inr a, s1)
         \<and> NewUdpProxy (JoinHostPort h (Itoa (go_add p 1))) t2 s1 = (Inl e, s2)
         \<longrightarrow> pair_attempt h t1 t2 p s = ((Some (closed_relay a), None, Some e), s)
             \<and> Closed (closed_relay a)
             \<and> NewUdpProxyPair h t1 t2 p mp s
                 = (if mp < go_add p 2
                    then Some ((Some (closed_relay a), None,
                                Some (exhausted (go_add p 2) mp)), s)
                    else NewUdpProxyPair h t1 t2 (go_add p 2) mp s))"
proof (intro conjI allI impI)
  fix p1 p2 err s'
  assume "NewUdpProxyPair h t1 t2 sp mp s = Some ((p1, p2, err), s')"
  from NewUdpProxyPair_post [OF this]
  show "(err = None
            \<and> (\<exists>a b q. p1 = Some a \<and> p2 = Some b \<and> live_pair h t1 t2 q s a b s'))
         \<or> (err \<noteq> None \<and> s' = s)"
    by auto
next
  assume "MinInt \<le> sp \<and> sp \<le> MaxInt - 2 \<and> mp \<le> MaxInt - 2"
  then show "\<exists>y. NewUdpProxyPair h t1 t2 sp mp s = Some y"
    using NewUdpProxyPair_returns by blast
next
  fix p a s1 e s2
  assume h: "NewUdpProxy (JoinHostPort h (Itoa p)) t1 s = (Inr a, s1)
             \<and> NewUdpProxy (JoinHostPort h (Itoa (go_add p 1))) t2 s1 = (Inl e, s2)"
  then have pa: "pair_attempt h t1 t2 p s = ((Some (closed_relay a), None, Some e), s)"
    using pair_attempt_second_fails by blast
  show "pair_attempt h t1 t2 p s = ((Some (closed_relay a), None, Some e), s)" by (rule pa)
  show "Closed (closed_relay a)" by (simp add: closed_relay_def)
  show "NewUdpProxyPair h t1 t2 p mp s
                     = (if mp < go_add p 2
                        then Some ((Some (closed_relay a), None,
                                    Some (exhausted (go_add p 2) mp)), s)
                        else NewUdpProxyPair h t1 t2 (go_add p 2) mp s)"
    by (subst NewUdpProxyPair.simps) (simp add: pa exhausted_def Let_def)
qed

lemma half_busy_first:
  "NewUdpProxy (JoinHostPort ''10.0.0.1'' (Itoa 20000)) ''127.0.0.1:6000'' half_busy_net
     = (Inr (relay_at \<lparr>IP = ''10.0.0.1'', Port = 20000\<rparr> \<lparr>IP = ''127.0.0.1'', Port = 6000\<rparr>
               ''10.0.0.1:20000''),
        half_busy_net\<lparr>conns := [TargetConn \<lparr>IP = ''127.0.0.1'', Port = 6000\<rparr>,
                                 ListenConn \<lparr>IP = ''10.0.0.1'', Port = 20000\<rparr>]\<rparr>)"
  by (simp add: NewUdpProxy_def ResolveUDPAddr_def ListenUDP_def DialUDP_def
      half_busy_net_def in_use_def example_joins example_resolves relay_at_def)

lemma half_busy_second:
  "NewUdpProxy (JoinHostPort ''10.0.0.1'' (Itoa (go_add 20000 1))) ''127.0.0.1:6001''
       (half_busy_net\<lparr>conns := [TargetConn \<lparr>IP = ''127.0.0.1'', Port = 6000\<rparr>,
                                 ListenConn \<lparr>IP = ''10.0.0.1'', Port = 20000\<rparr>]\<rparr>)
     = (Inl (Errorf ''bind: address already in use''),
        half_busy_net\<lparr>conns := [TargetConn \<lparr>IP = ''127.0.0.1'', Port = 6000\<rparr>,
                                 ListenConn \<lparr>IP = ''10.0.0.1'', Port = 20000\<rparr>]\<rparr>)"
  by (simp add: NewUdpProxy_def ResolveUDPAddr_def ListenUDP_def DialUDP_def
      half_busy_net_def in_use_def example_joins example_resolves go_add_small)

lemma half_busy_attempt_20002:
  "pair_attempt ''10.0.0.1'' ''127.0.0.1:6000'' ''127.0.0.1:6001'' 20002 half_busy_net
     = ((Some (relay_at \<lparr>IP = ''10.0.0.1'', Port = 20002\<rparr> \<lparr>IP = ''127.0.0.1'', Port = 6000\<rparr>
                ''10.0.0.1:20002''),
         Some (relay_at \<lparr>IP = ''10.0.0.1'', Port = 20003\<rparr> \<lparr>IP = ''127.0.0.1'', Port = 6001\<rparr>
                ''10.0.0.1:20003''), None),
        half_busy_net\<lparr>conns := [TargetConn \<lparr>IP = ''127.0.0.1'', Port = 6001\<rparr>,
                                 ListenConn \<lparr>IP = ''10.0.0.1'', Port = 20003\<rparr>,
                                 TargetConn \<lparr>IP = ''127.0.0.1'', Port = 6000\<rparr>,
                                 ListenConn \<lparr>IP = ''10.0.0.1'', Port = 20002\<rparr>]\<rparr>)"
  by (simp add: pair_attempt_def NewUdpProxy_def ResolveUDPAddr_def ListenUDP_def DialUDP_def
      half_busy_net_def in_use_def example_joins example_resolves go_add_small relay_at_def)

text \<open>C6 where port 20001 is taken: the relay on 20000 is closed again and the pair
  comes from 20002 and 20003.\<close>

theorem allocation_all_or_nothing_witness:
  "MinInt \<le> 20000 \<and> 20000 \<le> MaxInt - 2 \<and> 20010 \<le> MaxInt - 2
   \<and> NewUdpProxy (JoinHostPort ''10.0.0.1'' (Itoa 20000)) ''127.0.0.1:6000'' half_busy_net
       = (Inr (relay_at \<lparr>IP = ''10.0.0.1'', Port = 20000\<rparr> \<lparr>IP = ''127.0.0.1'', Port = 6000\<rparr>
               ''10.0.0.1:20000''),
          half_busy_net\<lparr>conns := [TargetConn \<lparr>IP = ''127.0.0.1'', Port = 6000\<rparr>,
                                   ListenConn \<lparr>IP = ''10.0.0.1'', Port = 20000\<rparr>]\<rparr>)
   \<and> NewUdpProxy (JoinHostPort ''10.0.0.1'' (Itoa (go_add 20000 1))) ''127.0.0.1:6001''
         (half_busy_net\<lparr>conns := [TargetConn \<lparr>IP = ''127.0.0.1'', Port = 6000\<rparr>,
                                   ListenConn \<lparr>IP = ''10.0.0.1'', Port = 20000\<rparr>]\<rparr>)
       = (Inl (Errorf ''bind: address already in use''),
          half_busy_net\<lparr>conns := [TargetConn \<lparr>IP = ''127.0.0.1'', Port = 6000\<rparr>,
                                   ListenConn \<lparr>IP = ''10.0.0.1'', Port = 20000\<rparr>]\<rparr>)
   \<and> NewUdpProxyPair ''10.0.0.1'' ''127.0.0.1:6000'' ''127.0.0.1:6001'' 20000 20010 half_busy_net
       = Some ((Some (relay_at \<lparr>IP = ''10.0.0.1'', Port = 20002\<rparr>
                        \<lparr>IP = ''127.0.0.1'', Port = 6000\<rparr> ''10.0.0.1:20002''),
                Some (relay_at \<lparr>IP = ''10.0.0.1'', Port = 20003\<rparr>
                        \<lparr>IP = ''127.0.0.1'', Port = 6001\<rparr> ''10.0.0.1:20003''), None),
               half_busy_net\<lparr>conns := [TargetConn \<lparr>IP = ''127.0.0.1'', Port = 6001\<rparr>,
                                 ListenConn \<lparr>IP = ''10.0.0.1'', Port = 20003\<rparr>,
                                 TargetConn \<lparr>IP = ''127.0.0.1'', Port = 6000\<rparr>,
                                 ListenConn \<lparr>IP = ''10.0.0.1'', Port = 20002\<rparr>]\<rparr>)
   \<and> (\<exists>q. live_pair ''10.0.0.1'' ''127.0.0.1:6000'' ''127.0.0.1:6001'' q half_busy_net
            (relay_at \<lparr>IP = ''10.0.0.1'', Port = 20002\<rparr>
               \<lparr>IP = ''127.0.0.1'', Port = 6000\<rparr> ''10.0.0.1:20002'')
            (relay_at \<lparr>IP = ''10.0.0.1'', Port = 20003\<rparr>
               \<lparr>IP = ''127.0.0.1'', Port = 6001\<rparr> ''10.0.0.1:20003'')
            (half_busy_net\<lparr>conns := [TargetConn \<lparr>IP = ''127.0.0.1'', Port = 6001\<rparr>,
                                 ListenConn \<lparr>IP = ''10.0.0.1'', Port = 20003\<rparr>,
                                 TargetConn \<lparr>IP = ''127.0.0.1'', Port = 6000\<rparr>,
                                 ListenConn \<lparr>IP = ''10.0.0.1'', Port = 20002\<rparr>]\<rparr>))"
proof -
  have b: "MinInt \<le> 20000" "20000 \<le> MaxInt - 2" "20010 \<le> MaxInt - 2"
    by (simp_all add: MinInt_def MaxInt_def)
  have next_pair:
    "NewUdpProxyPair ''10.0.0.1'' ''127.0.0.1:6000'' ''127.0.0.1:6001'' 20002 20010 half_busy_net
       = Some ((Some (relay_at \<lparr>IP = ''10.0.0.1'', Port = 20002\<rparr>
                        \<lparr>IP = ''127.0.0.1'', Port = 6000\<rparr> ''10.0.0.1:20002''),
                Some (relay_at \<lparr>IP = ''10.0.0.1'', Port = 20003\<rparr>
                        \<lparr>IP = ''127.0.0.1'', Port = 6001\<rparr> ''10.0.0.1:20003''), None),
               half_busy_net\<lparr>conns := [TargetConn \<lparr>IP = ''127.0.0.1'', Port = 6001\<rparr>,
                                 ListenConn \<lparr>IP = ''10.0.0.1'', Port = 20003\<rparr>,
                                 TargetConn \<lparr>IP = ''127.0.0.1'', Port = 6000\<rparr>,
                                 ListenConn \<lparr>IP = ''10.0.0.1'', Port = 20002\<rparr>]\<rparr>)"
    by (subst NewUdpProxyPair.simps) (simp add: half_busy_attempt_20002)
  note second_part = allocation_all_or_nothing [of "''10.0.0.1''" "''127.0.0.1:6000''"
      "''127.0.0.1:6001''" 20000 20010 half_busy_net, THEN conjunct2, THEN conjunct2, rule_format,
      OF conjI [OF half_busy_first half_busy_second]]
  note returns = allocation_all_or_nothing [of "''10.0.0.1''" "''127.0.0.1:6000''"
      "''127.0.0.1:6001''" 20000 20010 half_busy_net, THEN conjunct2, THEN conjunct1, rule_format,
      OF conjI [OF b(1) conjI [OF b(2) b(3)]]]
  from second_part have "NewUdpProxyPair ''10.0.0.1'' ''127.0.0.1:6000'' ''127.0.0.1:6001'' 20000 20010 half_busy_net
         = NewUdpProxyPair ''10.0.0.1'' ''127.0.0.1:6000'' ''127.0.0.1:6001'' 20002 20010 half_busy_net"
    by (simp add: go_add_small)
  with next_pair have final:
    "NewUdpProxyPair ''10.0.0.1'' ''127.0.0.1:6000'' ''127.0.0.1:6001'' 20000 20010 half_busy_net
       = Some ((Some (relay_at \<lparr>IP = ''10.0.0.1'', Port = 20002\<rparr>
                        \<lparr>IP = ''127.0.0.1'', Port = 6000\<rparr> ''10.0.0.1:20002''),
                Some (relay_at \<lparr>IP = ''10.0.0.1'', Port = 20003\<rparr>
                        \<lparr>IP = ''127.0.0.1'', Port = 6001\<rparr> ''10.0.0.1:20003''), None),
               half_busy_net\<lparr>conns := [TargetConn \<lparr>IP = ''127.0.0.1'', Port = 6001\<rparr>,
                                 ListenConn \<lparr>IP = ''10.0.0.1'', Port = 20003\<rparr>,
                                 TargetConn \<lparr>IP = ''127.0.0.1'', Port = 6000\<rparr>,
                                 ListenConn \<lparr>IP = ''10.0.0.1'', Port = 20002\<rparr>]\<rparr>)"
    by simp
  note live = allocation_all_or_nothing [of "''10.0.0.1''" "''127.0.0.1:6000''"
      "''127.0.0.1:6001''" 20000 20010 half_busy_net, THEN conjunct1, rule_format, OF final]
  then have "\<exists>q. live_pair ''10.0.0.1'' ''127.0.0.1:6000'' ''127.0.0.1:6001'' q half_busy_net
            (relay_at \<lparr>IP = ''10.0.0.1'', Port = 20002\<rparr>
               \<lparr>IP = ''127.0.0.1'', Port = 6000\<rparr> ''10.0.0.1:20002'')
            (relay_at \<lparr>IP = ''10.0.0.1'', Port = 20003\<rparr>
               \<lparr>IP = ''127.0.0.1'', Port = 6001\<rparr> ''10.0.0.1:20003'')
            (half_busy_net\<lparr>conns := [TargetConn \<lparr>IP = ''127.0.0.1'', Port = 6001\<rparr>,
                                 ListenConn \<lparr>IP = ''10.0.0.1'', Port = 20003\<rparr>,
                                 TargetConn \<lparr>IP = ''127.0.0.1'', Port = 6000\<rparr>,
                                 ListenConn \<lparr>IP = ''10.0.0.1'', Port = 20002\<rparr>]\<rparr>)"
    by simp
  with b final half_busy_first half_busy_second returns show ?thesis by blast
qed

text \<open>
  C10. Whatever \<open>maxPort\<close> is, also below \<open>startPort\<close>, the pair at \<open>startPort\<close>
  is tried first, and when both relays bind the allocator returns them. Only after a
  failed pass is the bound compared, with the port already increased by two: above
  \<open>maxPort\<close> the allocator gives up, otherwise it goes on from the increased port.
\<close>

theorem first_pair_tried_before_bound_check:
  "(\<forall>a s1 b s2.
       NewUdpProxy (JoinHostPort h (Itoa sp)) t1 s = (Inr a, s1)
       \<and> NewUdpProxy (JoinHostPort h (Itoa (go_add sp 1))) t2 s1 = (Inr b, s2)
       \<longrightarrow> NewUdpProxyPair h t1 t2 sp mp s = Some ((Some a, Some b, None), s2))
   \<and> (\<forall>p1 p2 e s'.
       pair_attempt h t1 t2 sp s = ((p1, p2, Some e), s')
       \<longrightarrow> NewUdpProxyPair h t1 t2 sp mp s
             = (if mp < go_add sp 2
                then Some ((p1, p2, Some (exhausted (go_add sp 2) mp)), s')
                else NewUdpProxyPair h t1 t2 (go_add sp 2) mp s'))"
proof (intro conjI allI impI)
  fix a s1 b s2
  assume "NewUdpProxy (JoinHostPort h (Itoa sp)) t1 s = (Inr a, s1)
       \<and> NewUdpProxy (JoinHostPort h (Itoa (go_add sp 1))) t2 s1 = (Inr b, s2)"
  then have "pair_attempt h t1 t2 sp s = ((Some a, Some b, None), s2)"
    by (simp add: pair_attempt_def)
  then show "NewUdpProxyPair h t1 t2 sp mp s = Some ((Some a, Some b, None), s2)"
    by (subst NewUdpProxyPair.simps) simp
next
  fix p1 p2 e s'
  assume "pair_attempt h t1 t2 sp s = ((p1, p2, Some e), s')"
  then show "NewUdpProxyPair h t1 t2 sp mp s
             = (if mp < go_add sp 2
                then Some ((p1, p2, Some (exhausted (go_add sp 2) mp)), s')
                else NewUdpProxyPair h t1 t2 (go_add sp 2) mp s')"
    by (subst NewUdpProxyPair.simps) (simp add: exhausted_def Let_def)
qed

lemma free_first:
  "NewUdpProxy (JoinHostPort ''10.0.0.1'' (Itoa 20000)) ''127.0.0.1:6000'' free_net
     = (Inr (relay_at \<lparr>IP = ''10.0.0.1'', Port = 20000\<rparr> \<lparr>IP = ''127.0.0.1'', Port = 6000\<rparr>
               ''10.0.0.1:20000''),
        free_net\<lparr>conns := [TargetConn \<lparr>IP = ''127.0.0.1'', Port = 6000\<rparr>,
                             ListenConn \<lparr>IP = ''10.0.0.1'', Port = 20000\<rparr>]\<rparr>)"
  by (simp add: NewUdpProxy_def ResolveUDPAddr_def ListenUDP_def DialUDP_def
      free_net_def in_use_def example_joins example_resolves relay_at_def)

lemma free_second:
  "NewUdpProxy (JoinHostPort ''10.0.0.1'' (Itoa (go_add 20000 1))) ''127.0.0.1:6001''
       (free_net\<lparr>conns := [TargetConn \<lparr>IP = ''127.0.0.1'', Port = 6000\<rparr>,
                             ListenConn \<lparr>IP = ''10.0.0.1'', Port = 20000\<rparr>]\<rparr>)
     = (Inr (relay_at \<lparr>IP = ''10.0.0.1'', Port = 20001\<rparr> \<lparr>IP = ''127.0.0.1'', Port = 6001\<rparr>
               ''10.0.0.1:20001''),
        free_net\<lparr>conns := [TargetConn \<lparr>IP = ''127.0.0.1'', Port = 6001\<rparr>,
                             ListenConn \<lparr>IP = ''10.0.0.1'', Port = 20001\<rparr>,
                             TargetConn \<lparr>IP = ''127.0.0.1'', Port = 6000\<rparr>,
                             ListenConn \<lparr>IP = ''10.0.0.1'', Port = 20000\<rparr>]\<rparr>)"
  by (simp add: NewUdpProxy_def ResolveUDPAddr_def ListenUDP_def DialUDP_def
      free_net_def in_use_def example_joins example_resolves relay_at_def go_add_small)

lemma exhausted_20002_10: "exhausted 20002 10
    = Errorf ''Failed to allocate UDP proxy pair in port range 20002-10''"
  by (simp add: exhausted_def Itoa_def digit_char_def)

text \<open>C10 with \<open>startPort\<close> 20000 above \<open>maxPort\<close> 10: on a free network the pair
  is returned, on a taken one the error names the port 20002.\<close>

theorem first_pair_tried_before_bound_check_witness:
  "(10::int) < 20000
   \<and> NewUdpProxyPair ''10.0.0.1'' ''127.0.0.1:6000'' ''127.0.0.1:6001'' 20000 10 free_net
       = Some ((Some (relay_at \<lparr>IP = ''10.0.0.1'', Port = 20000\<rparr>
                        \<lparr>IP = ''127.0.0.1'', Port = 6000\<rparr> ''10.0.0.1:20000''),
                Some (relay_at \<lparr>IP = ''10.0.0.1'', Port = 20001\<rparr>
                        \<lparr>IP = ''127.0.0.1'', Port = 6001\<rparr> ''10.0.0.1:20001''), None),
               free_net\<lparr>conns := [TargetConn \<lparr>IP = ''127.0.0.1'', Port = 6001\<rparr>,
                             ListenConn \<lparr>IP = ''10.0.0.1'', Port = 20001\<rparr>,
                             TargetConn \<lparr>IP = ''127.0.0.1'', Port = 6000\<rparr>,
                             ListenConn \<lparr>IP = ''10.0.0.1'', Port = 20000\<rparr>]\<rparr>)
   \<and> pair_attempt ''10.0.0.1'' ''127.0.0.1:6000'' ''127.0.0.1:6001'' 20000 busy_net
       = ((None, None, Some (Errorf ''bind: address already in use'')), busy_net)
   \<and> NewUdpProxyPair ''10.0.0.1'' ''127.0.0.1:6000'' ''127.0.0.1:6001'' 20000 10 busy_net
       = Some ((None, None,
                Some (Errorf ''Failed to allocate UDP proxy pair in port range 20002-10'')),
               busy_net)"
proof -
  note ok = first_pair_tried_before_bound_check [of "''10.0.0.1''" 20000 "''127.0.0.1:6000''"
      free_net "''127.0.0.1:6001''" 10, THEN conjunct1, rule_format,
      OF conjI [OF free_first free_second]]
  note bad = first_pair_tried_before_bound_check [of "''10.0.0.1''" 20000 "''127.0.0.1:6000''"
      busy_net "''127.0.0.1:6001''" 10, THEN conjunct2, rule_format, OF busy_attempt_20000]
  from ok bad show ?thesis
    by (simp add: busy_attempt_20000 go_add_small exhausted_20002_10)
qed


subsection \<open>Starting and stopping a proxied session\<close>

lemma client_6000:
  "JoinHostPort ''127.0.0.1'' (Itoa 6000) = ''127.0.0.1:6000''"
  "JoinHostPort ''127.0.0.1'' (Itoa (go_add 6000 1)) = ''127.0.0.1:6001''"
  by (simp_all add: JoinHostPort_def Itoa_def digit_char_def go_add_def)

lemma free_pair_20000:
  "NewUdpProxyPair ''10.0.0.1'' ''127.0.0.1:6000'' ''127.0.0.1:6001'' minPort maxPort free_net
     = Some ((Some (relay_at \<lparr>IP = ''10.0.0.1'', Port = 20000\<rparr>
                        \<lparr>IP = ''127.0.0.1'', Port = 6000\<rparr> ''10.0.0.1:20000''),
              Some (relay_at \<lparr>IP = ''10.0.0.1'', Port = 20001\<rparr>
                        \<lparr>IP = ''127.0.0.1'', Port = 6001\<rparr> ''10.0.0.1:20001''), None),
             two_relays_net)"
  by (subst NewUdpProxyPair.simps)
     (simp add: minPort_def pair_attempt_def free_first free_second two_relays_net_def)

lemma Itoa_20000: "Itoa 20000 = ''20000''"
  by (simp add: Itoa_def digit_char_def)

text \<open>
  C1. A start request reaches a proxy that has no session and a free network, and the
  backend refuses to start. \<open>startSession\<close> answers with the wrapped error and stores no
  session, but the four sockets of the two relays it allocated on the ports 20000 and
  20001 are still open: nothing closes the relays on this path.
\<close>

theorem backend_failure_leaves_relays_open:
  "startSession example_desc backend_down_proxy
     = Some (Some (Errorf
          ''Failed to start RTSP client: dial tcp media.example:554: connection refused''),
        backend_down_proxy\<lparr>net := two_relays_net\<rparr>)
   \<and> conns (net backend_down_proxy) = []
   \<and> conns two_relays_net
       = [TargetConn \<lparr>IP = ''127.0.0.1'', Port = 6001\<rparr>,
          ListenConn \<lparr>IP = ''10.0.0.1'', Port = 20001\<rparr>,
          TargetConn \<lparr>IP = ''127.0.0.1'', Port = 6000\<rparr>,
          ListenConn \<lparr>IP = ''10.0.0.1'', Port = 20000\<rparr>]"
proof (intro conjI)
  show "startSession example_desc backend_down_proxy
     = Some (Some (Errorf
          ''Failed to start RTSP client: dial tcp media.example:554: connection refused''),
        backend_down_proxy\<lparr>net := two_relays_net\<rparr>)"
    by (simp add: startSession_def backend_down_proxy_def example_proxy_def example_desc_def
        client_6000 free_pair_20000 StartRtspClient_def)
  show "conns (net backend_down_proxy) = []"
    by (simp add: backend_down_proxy_def example_proxy_def free_net_def)
  show "conns two_relays_net
       = [TargetConn \<lparr>IP = ''127.0.0.1'', Port = 6001\<rparr>,
          ListenConn \<lparr>IP = ''10.0.0.1'', Port = 20001\<rparr>,
          TargetConn \<lparr>IP = ''127.0.0.1'', Port = 6000\<rparr>,
          ListenConn \<lparr>IP = ''10.0.0.1'', Port = 20000\<rparr>]"
    by (simp add: two_relays_net_def)
qed

lemma start_example:
  "startSession example_desc example_proxy
     = Some (None, example_proxy\<lparr>net := two_relays_net, heap := [example_session],
                                 sessions := [''127.0.0.1:6000'' \<mapsto> 0], watchers := [0]\<rparr>)"
  by (simp add: startSession_def example_proxy_def example_desc_def
      client_6000 free_pair_20000 StartRtspClient_def Start_def observe_def
      example_session_def Itoa_20000 relay_at_def Let_def)

lemma started_proxy_eq:
  "started_proxy = example_proxy\<lparr>net := two_relays_net, heap := [example_session],
                                 sessions := [''127.0.0.1:6000'' \<mapsto> 0], watchers := [0]\<rparr>"
  by (simp add: started_proxy_def start_example)

lemma cleanupSession_sessions:
  "sessions (cleanupSession i proxy) = (sessions proxy)(client (heap proxy ! i) := None)"
  by (simp add: cleanupSession_def Let_def split: prod.splits)

lemma watcher_sessions:
  assumes "i \<in> set (watchers proxy)" and "i < length (heap proxy)"
  shows "sessions (watcher i proxy) = (sessions proxy)(client (heap proxy ! i) := None)"
  using assms by (simp add: watcher_def Let_def cleanupSession_sessions)

lemma backend_terminates_sessions:
  assumes "i \<in> set (watchers proxy)" and "i < length (heap proxy)"
  shows "sessions (backend_terminates i proxy)
           = (sessions proxy)(client (heap proxy ! i) := None)"
proof -
  let ?p = "proxy\<lparr>heap := (heap proxy)[i := (heap proxy ! i)\<lparr>backend :=
              (backend (heap proxy ! i))\<lparr>rtsp_running := False\<rparr>\<rparr>]\<rparr>"
  have "sessions (watcher i ?p) = (sessions ?p)(client (heap ?p ! i) := None)"
    using assms by (intro watcher_sessions) simp_all
  with assms show ?thesis by (simp add: backend_terminates_def Let_def)
qed

text \<open>
  C5, as stated, at the proxy: a session is started for 127.0.0.1:6000, its backend ends
  on its own, so that the watcher of \<open>observe\<close> cleans the session up and deletes it
  from the map, and the stop request that follows is answered "Session not found", not
  "stopped prematurely".
\<close>

theorem stop_after_backend_end_not_found:
  "map_option fst (startSession example_desc example_proxy) = Some None
   \<and> sessions started_proxy ''127.0.0.1:6000'' = Some 0
   \<and> sessions (backend_terminates 0 started_proxy) ''127.0.0.1:6000'' = None
   \<and> fst (stopSession example_desc (backend_terminates 0 started_proxy))
       = Some (Errorf ''Session not found for client 127.0.0.1:6000'')"
proof -
  have w: "0 \<in> set (watchers started_proxy)" "0 < length (heap started_proxy)"
    by (simp_all add: started_proxy_eq)
  have t: "sessions (backend_terminates 0 started_proxy) ''127.0.0.1:6000'' = None"
    by (simp add: backend_terminates_sessions [OF w])
       (simp add: started_proxy_eq example_session_def)
  have a: "map_option fst (startSession example_desc example_proxy) = Some None"
    by (simp add: start_example)
  have b: "sessions started_proxy ''127.0.0.1:6000'' = Some 0"
    by (simp add: started_proxy_eq)
  have c: "fst (stopSession example_desc (backend_terminates 0 started_proxy))
       = Some (Errorf ''Session not found for client 127.0.0.1:6000'')"
    by (simp add: stopSession_def t example_desc_def client_6000)
  from a b c t show ?thesis by simp
qed

lemma port_range_bounds: "MinInt \<le> minPort" "minPort \<le> MaxInt - 2" "maxPort \<le> MaxInt - 2"
  by (simp_all add: MinInt_def MaxInt_def minPort_def maxPort_def)

lemma observe_fields:
  "sessions (observe p proxy) = sessions proxy" "heap (observe p proxy) = heap proxy"
  by (simp_all add: observe_def Let_def)

text \<open>
  C9. The client key of a start request is \<open>JoinHostPort\<close> of the receiver host and
  the text of the port. When the key has a session already, \<open>startSession\<close> answers
  "Session already exists" and leaves the proxy, its network included, as it was. When
  it answers without an error, the session map holds under the key a session with that
  key, whose RTP relay targets the address the key resolves to and whose RTCP relay
  targets the address of the same host at the port plus one (Go's \<open>+\<close>, which is the
  sum unless the port is the largest \<open>int\<close>). \<open>startSession\<close> always returns.
\<close>

theorem startSession_contract:
  "(sessions proxy (JoinHostPort (ReceiverHost desc) (Itoa (ReqPort desc))) \<noteq> None \<longrightarrow>
      startSession desc proxy
        = Some (Some (Errorf (''Session already exists for client '' @
                   JoinHostPort (ReceiverHost desc) (Itoa (ReqPort desc)))), proxy))
   \<and> (\<forall>proxy'. startSession desc proxy = Some (None, proxy') \<longrightarrow>
        (\<exists>p. sessions proxy' (JoinHostPort (ReceiverHost desc) (Itoa (ReqPort desc))) = Some p
           \<and> p < length (heap proxy')
           \<and> client (heap proxy' ! p) = JoinHostPort (ReceiverHost desc) (Itoa (ReqPort desc))
           \<and> port (heap proxy' ! p) = ReqPort desc
           \<and> mediaFile (heap proxy' ! p) = MediaFile desc
           \<and> resolve (net proxy) (JoinHostPort (ReceiverHost desc) (Itoa (ReqPort desc)))
               = Inr (targetAddr (rtpProxy (heap proxy' ! p)))
           \<and> resolve (net proxy)
                 (JoinHostPort (ReceiverHost desc) (Itoa (go_add (ReqPort desc) 1)))
               = Inr (targetAddr (rtcpProxy (heap proxy' ! p)))
           \<and> \<not> Closed (rtpProxy (heap proxy' ! p))
           \<and> \<not> Closed (rtcpProxy (heap proxy' ! p))))
   \<and> (MinInt \<le> ReqPort desc \<and> ReqPort desc < MaxInt \<longrightarrow>
        go_add (ReqPort desc) 1 = ReqPort desc + 1)
   \<and> (\<exists>r. startSession desc proxy = Some r)"
proof -
  let ?c = "JoinHostPort (ReceiverHost desc) (Itoa (ReqPort desc))"
  let ?c2 = "JoinHostPort (ReceiverHost desc) (Itoa (go_add (ReqPort desc) 1))"
  obtain y where "NewUdpProxyPair (proxyHost proxy) ?c ?c2 minPort maxPort (net proxy) = Some y"
    using NewUdpProxyPair_returns [OF port_range_bounds] by blast
  then obtain p1 p2 err n where
    R: "NewUdpProxyPair (proxyHost proxy) ?c ?c2 minPort maxPort (net proxy)
          = Some ((p1, p2, err), n)"
    by (metis prod_cases3 surj_pair)
  note post = NewUdpProxyPair_post [OF R]
  have exists: "sessions proxy ?c \<noteq> None \<Longrightarrow>
      startSession desc proxy
        = Some (Some (Errorf (''Session already exists for client '' @ ?c)), proxy)"
    by (simp add: startSession_def)
  have failed: "startSession desc proxy = Some (err, proxy\<lparr>net := n\<rparr>)"
    if "sessions proxy ?c = None" and "err \<noteq> None"
    using that R by (auto simp: startSession_def Let_def split: option.splits)
  have started: "startSession desc proxy =
       (case StartRtspClient (resolve_reference proxy (rtspURL proxy) (MediaFile desc))
               (Port (listenAddr a))
               (''amp-proxy-'' @ Itoa (Port (listenAddr a)) @ ''-'' @ MediaFile desc @ ''.log'')
               (proxy\<lparr>net := n\<rparr>) of
          Inl e \<Rightarrow> Some (Some (Errorf (''Failed to start RTSP client: '' @ Error_text e)),
                         proxy\<lparr>net := n\<rparr>)
        | Inr rtsp \<Rightarrow>
            Some (None, observe (length (heap proxy))
              (proxy\<lparr>net := n,
                     heap := heap proxy @ [\<lparr>backend = rtsp, rtpProxy = a, rtcpProxy = b,
                        port = ReqPort desc, mediaFile = MediaFile desc, client = ?c\<rparr>],
                     sessions := (sessions proxy)(?c \<mapsto> length (heap proxy))\<rparr>)))"
    if "sessions proxy ?c = None" and "err = None" and "p1 = Some a" and "p2 = Some b" for a b
    using that R by (simp add: startSession_def Start_def Let_def split: sum.splits)
  show ?thesis
  proof (intro conjI allI impI)
    assume "sessions proxy ?c \<noteq> None"
    then show "startSession desc proxy
        = Some (Some (Errorf (''Session already exists for client '' @ ?c)), proxy)"
      by (rule exists)
  next
    fix proxy' assume st: "startSession desc proxy = Some (None, proxy')"
    have free: "sessions proxy ?c = None"
      using st exists by (cases "sessions proxy ?c") auto
    have ok: "err = None" using st failed [OF free] by (cases err) auto
    with post obtain a b q where ab: "p1 = Some a" "p2 = Some b"
      and live: "live_pair (proxyHost proxy) ?c ?c2 q (net proxy) a b n"
      by auto
    from st started [OF free ok ab] obtain rtsp where
      p': "proxy' = observe (length (heap proxy))
              (proxy\<lparr>net := n,
                     heap := heap proxy @ [\<lparr>backend = rtsp, rtpProxy = a, rtcpProxy = b,
                        port = ReqPort desc, mediaFile = MediaFile desc, client = ?c\<rparr>],
                     sessions := (sessions proxy)(?c \<mapsto> length (heap proxy))\<rparr>)"
      by (auto split: sum.splits)
    show "\<exists>p. sessions proxy' ?c = Some p
           \<and> p < length (heap proxy')
           \<and> client (heap proxy' ! p) = ?c
           \<and> port (heap proxy' ! p) = ReqPort desc
           \<and> mediaFile (heap proxy' ! p) = MediaFile desc
           \<and> resolve (net proxy) ?c = Inr (targetAddr (rtpProxy (heap proxy' ! p)))
           \<and> resolve (net proxy) ?c2 = Inr (targetAddr (rtcpProxy (heap proxy' ! p)))
           \<and> \<not> Closed (rtpProxy (heap proxy' ! p))
           \<and> \<not> Closed (rtcpProxy (heap proxy' ! p))"
      using live by (intro exI [of _ "length (heap proxy)"])
        (simp add: p' observe_fields live_pair_def)
  next
    assume "MinInt \<le> ReqPort desc \<and> ReqPort desc < MaxInt"
    then show "go_add (ReqPort desc) 1 = ReqPort desc + 1"
      by (intro go_add_in_range) (simp_all add: MinInt_def)
  next
    show "\<exists>r. startSession desc proxy = Some r"
    proof (cases "sessions proxy ?c")
      case (Some p)
      then show ?thesis using exists by simp
    next
      case None
      show ?thesis
      proof (cases err)
        case (Some e)
        then show ?thesis using failed [OF None] by simp
      next
        case none: None
        with post obtain a b where ab: "p1 = Some a" "p2 = Some b" by auto
        show ?thesis using started [OF None none ab] by (simp split: sum.splits)
      qed
    qed
  qed
qed

text \<open>C9 on the request for 127.0.0.1:6000, first at a proxy without sessions and
  then again.\<close>

theorem startSession_contract_witness:
  "sessions started_proxy (JoinHostPort (ReceiverHost example_desc) (Itoa (ReqPort example_desc)))
     \<noteq> None
   \<and> startSession example_desc started_proxy
       = Some (Some (Errorf ''Session already exists for client 127.0.0.1:6000''), started_proxy)
   \<and> startSession example_desc example_proxy = Some (None, started_proxy)
   \<and> sessions started_proxy ''127.0.0.1:6000'' = Some 0
   \<and> targetAddr (rtpProxy (heap started_proxy ! 0)) = \<lparr>IP = ''127.0.0.1'', Port = 6000\<rparr>
   \<and> targetAddr (rtcpProxy (heap started_proxy ! 0)) = \<lparr>IP = ''127.0.0.1'', Port = 6001\<rparr>
   \<and> MinInt \<le> ReqPort example_desc \<and> ReqPort example_desc < MaxInt
   \<and> go_add (ReqPort example_desc) 1 = 6001"
proof -
  have c: "JoinHostPort (ReceiverHost example_desc) (Itoa (ReqPort example_desc))
             = ''127.0.0.1:6000''"
    "JoinHostPort (ReceiverHost example_desc) (Itoa (go_add (ReqPort example_desc) 1))
             = ''127.0.0.1:6001''"
    by (simp_all add: example_desc_def client_6000)
  have a: "sessions started_proxy ''127.0.0.1:6000'' \<noteq> None"
    by (simp add: started_proxy_eq)
  have b: "startSession example_desc example_proxy = Some (None, started_proxy)"
    by (simp add: start_example started_proxy_eq)
  have r: "MinInt \<le> ReqPort example_desc \<and> ReqPort example_desc < MaxInt"
    by (simp add: example_desc_def MinInt_def MaxInt_def)
  have n: "net example_proxy = free_net" by (simp add: example_proxy_def)
  note again = startSession_contract [of started_proxy example_desc, THEN conjunct1,
      rule_format, unfolded c, OF a]
  note first = startSession_contract [of example_proxy example_desc, THEN conjunct2,
      THEN conjunct1, rule_format, unfolded c, OF b]
  note wrap = startSession_contract [of example_proxy example_desc, THEN conjunct2,
      THEN conjunct2, THEN conjunct1, rule_format, OF r]
  from first have "sessions started_proxy ''127.0.0.1:6000'' = Some 0
      \<and> targetAddr (rtpProxy (heap started_proxy ! 0)) = \<lparr>IP = ''127.0.0.1'', Port = 6000\<rparr>
      \<and> targetAddr (rtcpProxy (heap started_proxy ! 0)) = \<lparr>IP = ''127.0.0.1'', Port = 6001\<rparr>"
    by (auto simp: n free_net_def example_resolves started_proxy_eq)
  with again b r wrap a show ?thesis
    by (simp add: c) (simp add: example_desc_def)
qed


subsection \<open>Stopping a session of the registry\<close>

lemma example_registry_eq:
  "example_registry =
     \<lparr>Sessions = [''127.0.0.1:6000'' \<mapsto> 0],
      objects = [\<lparr>Stopped = Armed, CleanupErr = None, session = failing_session\<rparr>],
      observers = [0], user = None\<rparr>"
  by (simp add: example_registry_def NewSession_def empty_registry_def registry_observe_def
      NewOneshotCondition_def failing_session_def Let_def)

lemma Stop_Sessions: "Sessions (Stop base r) = Sessions r"
  by (simp add: Stop_def Enable_def Let_def split: prod.splits)

lemma storing_registry_eq:
  "storing_registry =
     \<lparr>Sessions = [''127.0.0.1:6000'' \<mapsto> 0],
      objects = [\<lparr>Stopped = Armed, CleanupErr = None, session = storing_session\<rparr>],
      observers = [], user = None\<rparr>"
  by (simp add: storing_registry_def NewSession_def empty_registry_def registry_observe_def
      NewOneshotCondition_def storing_session_def Let_def)

lemma Stop_Armed:
  assumes "base < length (objects r)" and "Stopped (objects r ! base) = Armed"
  shows "Stop base r =
           r\<lparr>objects := (objects r)[base := (objects r ! base)
                \<lparr>Stopped := Fired,
                 CleanupErr := fst (stop_body (session (objects r ! base))
                                     (CleanupErr (objects r ! base), user r))\<rparr>],
             user := snd (stop_body (session (objects r ! base))
                            (CleanupErr (objects r ! base), user r))\<rparr>"
  using assms by (simp add: Stop_def Enable_def Let_def split: prod.splits)

lemma example_registry_fired:
  "watcher_fires 0 example_registry =
   \<lparr>Sessions = [''127.0.0.1:6000'' \<mapsto> 0],
    objects = [\<lparr>Stopped = Fired, CleanupErr = None, session = failing_session\<rparr>],
    observers = [],
    user = Some (Errorf ''close udp 10.0.0.1:20000: socket busy'')\<rparr>"
  by (simp add: example_registry_eq watcher_fires_def Stop_def Enable_def stop_body_def
      Wg_Wait_def failing_session_def)

text \<open>
  C7. \<open>StopSession\<close> on a key without entry answers "No session found" and leaves the
  registry as it was. On an entry whose gate has fired it answers "Session stopped
  prematurely:" followed by the text of the cleanup error of the entry, or by
  "(no error)" when there is none. Whenever the key has an entry, that entry, and no
  other, is gone from the map afterwards.
\<close>

theorem StopSession_cases:
  "(Sessions r key = None \<longrightarrow>
      StopSession fmtv key r = (Some (Errorf (''No session found for '' @ fmtv key)), r))
   \<and> (\<forall>base. Sessions r key = Some base \<and> Enabled (Stopped (objects r ! base)) \<longrightarrow>
         fst (StopSession fmtv key r)
           = Some (Errorf (''Session stopped prematurely: '' @
                (case CleanupErr (objects r ! base) of
                   None \<Rightarrow> ''(no error)'' | Some e \<Rightarrow> Error_text e))))
   \<and> (\<forall>base. Sessions r key = Some base \<longrightarrow>
         Sessions (snd (StopSession fmtv key r)) = (Sessions r)(key := None))"
  by (simp add: StopSession_def Let_def Stop_Sessions)

text \<open>C7 on the registry with one entry: an unknown key, the entry after its watcher
  fired, and the entry stopped by the call.\<close>

theorem StopSession_cases_witness:
  "Sessions example_registry ''10.9.9.9:1'' = None
   \<and> StopSession id ''10.9.9.9:1'' example_registry
       = (Some (Errorf ''No session found for 10.9.9.9:1''), example_registry)
   \<and> Sessions (watcher_fires 0 example_registry) ''127.0.0.1:6000'' = Some 0
   \<and> Enabled (Stopped (objects (watcher_fires 0 example_registry) ! 0))
   \<and> fst (StopSession id ''127.0.0.1:6000'' (watcher_fires 0 example_registry))
       = Some (Errorf ''Session stopped prematurely: (no error)'')
   \<and> Sessions (snd (StopSession id ''127.0.0.1:6000'' (watcher_fires 0 example_registry)))
       ''127.0.0.1:6000'' = None
   \<and> Sessions example_registry ''127.0.0.1:6000'' = Some 0
   \<and> Sessions (snd (StopSession id ''127.0.0.1:6000'' example_registry)) ''127.0.0.1:6000'' = None"
proof -
  have a: "Sessions example_registry ''10.9.9.9:1'' = None"
    by (simp add: example_registry_eq)
  have b: "Sessions (watcher_fires 0 example_registry) ''127.0.0.1:6000'' = Some 0
           \<and> Enabled (Stopped (objects (watcher_fires 0 example_registry) ! 0))"
    by (simp add: example_registry_fired Enabled_def)
  have c: "Sessions example_registry ''127.0.0.1:6000'' = Some 0"
    by (simp add: example_registry_eq)
  show ?thesis
    using a b c
      StopSession_cases [of example_registry "''10.9.9.9:1''" id]
      StopSession_cases [of "watcher_fires 0 example_registry" "''127.0.0.1:6000''" id]
      StopSession_cases [of example_registry "''127.0.0.1:6000''" id]
    by (simp add: example_registry_fired)
qed

text \<open>
  C3, amended. When \<open>StopSession\<close> finds the gate of the entry armed, the body stops
  every observee in turn, waits, and calls \<open>Cleanup\<close>, which returns nothing; the gate
  has fired afterwards. The registry itself never assigns the cleanup error of the
  entry: after the call it is what \<open>Cleanup\<close> left there, and the call returns exactly
  that value. With a \<open>Cleanup\<close> that does not store anything there, the call returns
  the value the entry had before, which is \<open>nil\<close> for an entry as \<open>NewSession\<close> made
  it.
\<close>

theorem StopSession_fires:
  assumes "Sessions r key = Some base" and "base < length (objects r)"
    and "Stopped (objects r ! base) = Armed"
  shows "(CleanupErr (objects (snd (StopSession fmtv key r)) ! base),
          user (snd (StopSession fmtv key r)))
           = Cleanup (session (objects r ! base))
               (CleanupErr (objects r ! base),
                fold obs_Stop (Observees (session (objects r ! base))) (user r))
       \<and> Stopped (objects (snd (StopSession fmtv key r)) ! base) = Fired
       \<and> fst (StopSession fmtv key r)
           = CleanupErr (objects (snd (StopSession fmtv key r)) ! base)
       \<and> ((\<forall>e u. fst (Cleanup (session (objects r ! base)) (e, u)) = e) \<longrightarrow>
            fst (StopSession fmtv key r) = CleanupErr (objects r ! base))
       \<and> CleanupErr (objects (snd (NewSession key' ses r)) ! fst (NewSession key' ses r)) = None"
  using assms
  by (simp add: StopSession_def Let_def Enabled_def Stop_Armed stop_body_def Wg_Wait_def
      NewSession_def registry_observe_def)

text \<open>C3, amended, on the two registries with one entry: the error that stays with
  the user is not returned, the error that the session stored is.\<close>

theorem StopSession_fires_witness:
  "Sessions example_registry ''127.0.0.1:6000'' = Some 0
   \<and> 0 < length (objects example_registry)
   \<and> Stopped (objects example_registry ! 0) = Armed
   \<and> (\<forall>e u. fst (Cleanup (session (objects example_registry ! 0)) (e, u)) = e)
   \<and> user (snd (StopSession id ''127.0.0.1:6000'' example_registry))
       = Some (Errorf ''close udp 10.0.0.1:20000: socket busy'')
   \<and> fst (StopSession id ''127.0.0.1:6000'' example_registry) = None
   \<and> fst (StopSession id ''127.0.0.1:6000'' storing_registry)
       = Some (Errorf ''close udp 10.0.0.1:20000: socket busy'')"
proof -
  have h: "Sessions example_registry ''127.0.0.1:6000'' = Some 0"
    "0 < length (objects example_registry)"
    "Stopped (objects example_registry ! 0) = Armed"
    by (simp_all add: example_registry_eq)
  have k: "\<forall>e u. fst (Cleanup (session (objects example_registry ! 0)) (e, u)) = e"
    by (simp add: example_registry_eq failing_session_def)
  let ?r = "storing_registry"
  have g: "Sessions ?r ''127.0.0.1:6000'' = Some 0" "0 < length (objects ?r)"
    "Stopped (objects ?r ! 0) = Armed"
    by (simp_all add: storing_registry_eq)
  note kept = StopSession_fires [OF h, of id, THEN conjunct2, THEN conjunct2, THEN conjunct2,
      THEN conjunct1, rule_format, OF k [rule_format]]
  note body = StopSession_fires [OF h, of id, THEN conjunct1]
  note stored = StopSession_fires [OF g, of id, THEN conjunct1]
  note returned = StopSession_fires [OF g, of id, THEN conjunct2, THEN conjunct2, THEN conjunct1]
  from body have u: "user (snd (StopSession id ''127.0.0.1:6000'' example_registry))
       = Some (Errorf ''close udp 10.0.0.1:20000: socket busy'')"
    by (simp add: example_registry_eq failing_session_def)
  from kept have n: "fst (StopSession id ''127.0.0.1:6000'' example_registry) = None"
    by (simp add: example_registry_eq)
  from stored returned have e: "fst (StopSession id ''127.0.0.1:6000'' ?r)
       = Some (Errorf ''close udp 10.0.0.1:20000: socket busy'')"
    by (simp add: storing_registry_eq storing_session_def)
  from h k u n e show ?thesis by blast
qed

text \<open>
  C3, as stated, on the registry with one entry, whose cleanup meets an error:
  \<open>StopSession\<close> fires the gate, the cleanup runs and the error it met is in the state
  of the user, and yet the call returns \<open>nil\<close> and the cleanup error of the entry is
  \<open>nil\<close>.
\<close>

theorem cleanup_error_dropped:
  "user (snd (StopSession id ''127.0.0.1:6000'' example_registry))
     = Some (Errorf ''close udp 10.0.0.1:20000: socket busy'')
   \<and> fst (StopSession id ''127.0.0.1:6000'' example_registry) = None
   \<and> CleanupErr (objects (snd (StopSession id ''127.0.0.1:6000'' example_registry)) ! 0) = None"
  by (simp add: example_registry_eq StopSession_def Enabled_def Stop_def Enable_def
      stop_body_def Wg_Wait_def failing_session_def)

text \<open>
  C5, amended. In the session registry, when the watcher of an entry has fired the stop
  gate because an observee ended, before any \<open>StopSession\<close>, a later \<open>StopSession\<close>
  for the key answers "Session stopped prematurely", with the cleanup error of the
  entry or "(no error)", and not "No session found"; it removes the entry. At the
  proxy, when the backend of a session has ended on its own and the watcher has run,
  \<open>stopSession\<close> for the client of that session answers "Session not found".
\<close>

theorem premature_stop_reported:
  "(Sessions r key = Some base \<and> base \<in> set (observers r)
      \<and> base < length (objects r) \<and> Stopped (objects r ! base) = Armed \<longrightarrow>
       fst (StopSession fmtv key (watcher_fires base r))
         = Some (Errorf (''Session stopped prematurely: '' @
              (case CleanupErr (objects (watcher_fires base r) ! base) of
                 None \<Rightarrow> ''(no error)'' | Some e \<Rightarrow> Error_text e)))
       \<and> fst (StopSession fmtv key (watcher_fires base r))
           \<noteq> Some (Errorf (''No session found for '' @ fmtv key))
       \<and> Sessions (snd (StopSession fmtv key (watcher_fires base r))) key = None)
   \<and> (i \<in> set (watchers proxy) \<and> i < length (heap proxy)
      \<and> client (heap proxy ! i) = JoinHostPort (ReceiverHost desc) (Itoa (ReqPort desc)) \<longrightarrow>
       stopSession desc (backend_terminates i proxy)
         = (Some (Errorf (''Session not found for client '' @
                    JoinHostPort (ReceiverHost desc) (Itoa (ReqPort desc)))),
            backend_terminates i proxy))"
proof (intro conjI impI)
  assume h: "Sessions r key = Some base \<and> base \<in> set (observers r)
      \<and> base < length (objects r) \<and> Stopped (objects r ! base) = Armed"
  let ?r1 = "r\<lparr>observers := remove1 base (observers r)\<rparr>"
  have w: "watcher_fires base r = Stop base ?r1"
    using h by (simp add: watcher_fires_def)
  have s: "Sessions (Stop base ?r1) key = Some base"
    "Stopped (objects (Stop base ?r1) ! base) = Fired"
    using h Stop_Armed [of base ?r1] by simp_all
  show "fst (StopSession fmtv key (watcher_fires base r))
         = Some (Errorf (''Session stopped prematurely: '' @
              (case CleanupErr (objects (watcher_fires base r) ! base) of
                 None \<Rightarrow> ''(no error)'' | Some e \<Rightarrow> Error_text e)))"
    and "fst (StopSession fmtv key (watcher_fires base r))
           \<noteq> Some (Errorf (''No session found for '' @ fmtv key))"
    and "Sessions (snd (StopSession fmtv key (watcher_fires base r))) key = None"
    by (simp_all add: w s StopSession_def Enabled_def)
next
  assume h: "i \<in> set (watchers proxy) \<and> i < length (heap proxy)
      \<and> client (heap proxy ! i) = JoinHostPort (ReceiverHost desc) (Itoa (ReqPort desc))"
  then have "sessions (backend_terminates i proxy)
               (JoinHostPort (ReceiverHost desc) (Itoa (ReqPort desc))) = None"
    by (simp add: backend_terminates_sessions)
  then show "stopSession desc (backend_terminates i proxy)
         = (Some (Errorf (''Session not found for client '' @
                    JoinHostPort (ReceiverHost desc) (Itoa (ReqPort desc)))),
            backend_terminates i proxy)"
    by (simp add: stopSession_def)
qed

text \<open>C5, amended, on the registry with one entry and on the proxy with one session.\<close>

theorem premature_stop_reported_witness:
  "Sessions example_registry ''127.0.0.1:6000'' = Some 0
   \<and> 0 \<in> set (observers example_registry)
   \<and> 0 < length (objects example_registry)
   \<and> Stopped (objects example_registry ! 0) = Armed
   \<and> fst (StopSession id ''127.0.0.1:6000'' (watcher_fires 0 example_registry))
       = Some (Errorf ''Session stopped prematurely: (no error)'')
   \<and> 0 \<in> set (watchers started_proxy) \<and> 0 < length (heap started_proxy)
   \<and> client (heap started_proxy ! 0)
       = JoinHostPort (ReceiverHost example_desc) (Itoa (ReqPort example_desc))
   \<and> fst (stopSession example_desc (backend_terminates 0 started_proxy))
       = Some (Errorf ''Session not found for client 127.0.0.1:6000'')"
proof -
  have h: "Sessions example_registry ''127.0.0.1:6000'' = Some 0
    \<and> 0 \<in> set (observers example_registry)
    \<and> 0 < length (objects example_registry)
    \<and> Stopped (objects example_registry ! 0) = Armed"
    by (simp add: example_registry_eq)
  have c: "JoinHostPort (ReceiverHost example_desc) (Itoa (ReqPort example_desc))
             = ''127.0.0.1:6000''"
    by (simp add: example_desc_def client_6000)
  have g: "0 \<in> set (watchers started_proxy) \<and> 0 < length (heap started_proxy)
    \<and> client (heap started_proxy ! 0)
        = JoinHostPort (ReceiverHost example_desc) (Itoa (ReqPort example_desc))"
    unfolding c by (simp add: started_proxy_eq example_session_def)
  note registry = premature_stop_reported [where r = example_registry
      and key = "''127.0.0.1:6000''" and base = 0 and fmtv = id,
      THEN conjunct1, rule_format, OF h, THEN conjunct1]
  note proxy = premature_stop_reported [where i = 0 and proxy = started_proxy
      and desc = example_desc,
      THEN conjunct2, rule_format, OF g, unfolded c]
  from registry have r: "fst (StopSession id ''127.0.0.1:6000'' (watcher_fires 0 example_registry))
       = Some (Errorf ''Session stopped prematurely: (no error)'')"
    by (simp add: example_registry_fired)
  from proxy have p: "fst (stopSession example_desc (backend_terminates 0 started_proxy))
       = Some (Errorf ''Session not found for client 127.0.0.1:6000'')"
    by simp
  from h g r p show ?thesis by blast
qed


subsection \<open>Callers that race for the stop gate\<close>

lemma race_inv_init: "race_inv ses n u (race_init n u)"
  by (simp add: race_inv_def race_init_def)

lemma race_inv_step:
  assumes inv: "race_inv ses n u s" and step: "race_step ses t s = Some s'"
  shows "race_inv ses n u s'"
proof -
  from step have t: "t < length (callers s)"
    by (auto simp: race_step_def split: if_splits)
  with inv have tn: "t < n" by (simp add: race_inv_def)
  show ?thesis
  proof (cases "callers s ! t")
    case Calling
    show ?thesis
    proof (cases "gate s")
      case Armed
      with Calling step t have s': "s' = s\<lparr>gate := Firing, callers := (callers s)[t := Running 0]\<rparr>"
        by (simp add: race_step_def)
      from inv Armed tn t show ?thesis
        by (auto simp: race_inv_def s' nth_list_update intro!: exI [of _ t])
    next
      case Firing
      with Calling step t show ?thesis by (simp add: race_step_def)
    next
      case Fired
      with Calling step t have s': "s' = s\<lparr>callers := (callers s)[t := Returned]\<rparr>"
        by (simp add: race_step_def)
      from inv Fired t show ?thesis
        by (auto simp: race_inv_def s' nth_list_update)
    qed
  next
    case (Running k)
    with inv tn have g: "gate s = Firing"
      by (cases "gate s") (auto simp: race_inv_def)
    with inv obtain ta ka where ta: "ta < n" "callers s ! ta = Running ka"
      "ka \<le> body_length ses" "trace s = [0..<ka]"
      "\<forall>t'<n. t' \<noteq> ta \<longrightarrow> callers s ! t' = Calling"
      by (auto simp: race_inv_def)
    have "ta = t"
    proof (rule ccontr)
      assume "ta \<noteq> t"
      with ta(5) tn have "callers s ! t = Calling" by simp
      with Running show False by simp
    qed
    with ta Running have k: "k \<le> body_length ses" "trace s = [0..<k]"
      and others: "\<forall>t'<n. t' \<noteq> t \<longrightarrow> callers s ! t' = Calling"
      by simp_all
    from inv have len: "length (callers s) = n"
      and us: "ustate s = fold (body_action ses) (trace s) u"
      by (simp_all add: race_inv_def)
    show ?thesis
    proof (cases "k < body_length ses")
      case True
      with Running step t have s': "s' = s\<lparr>ustate := body_action ses k (ustate s),
                       trace := trace s @ [k],
                       callers := (callers s)[t := Running (Suc k)]\<rparr>"
        by (simp add: race_step_def)
      from len us k others True tn show ?thesis
        by (auto simp: race_inv_def s' g nth_list_update intro!: exI [of _ t])
    next
      case False
      with k have kk: "k = body_length ses" by simp
      from False Running step t have s': "s' = s\<lparr>gate := Fired, callers := (callers s)[t := Returned]\<rparr>"
        by (simp add: race_step_def)
      from len us k others kk tn show ?thesis
        by (auto simp: race_inv_def s' nth_list_update)
    qed
  next
    case Returned
    with step t show ?thesis by (simp add: race_step_def)
  qed
qed

lemma race_inv_run: "race_inv ses n u s \<Longrightarrow> race_inv ses n u (race_run ses sched s)"
proof (induction sched arbitrary: s)
  case Nil
  then show ?case by simp
next
  case (Cons t ts)
  then show ?case
    by (cases "race_step ses t s") (auto intro: race_inv_step)
qed

lemma fold_nth: "fold (\<lambda>k. f (xs ! k)) [0..<length xs] u = fold f xs u"
proof (induction xs arbitrary: u rule: rev_induct)
  case Nil
  then show ?case by simp
next
  case (snoc x xs)
  have "fold (\<lambda>k. f ((xs @ [x]) ! k)) [0..<length xs] u = fold (\<lambda>k. f (xs ! k)) [0..<length xs] u"
    by (rule fold_cong) (simp_all add: nth_append)
  with snoc show ?case by simp
qed

lemma fold_keep_error:
  "fold (\<lambda>ob (e, u). (e, obs_Stop ob u)) obs (e, u) = (e, fold obs_Stop obs u)"
  by (induction obs arbitrary: u) simp_all

lemma fold_body_action:
  "fold (body_action ses) [0..<body_length ses] eu = stop_body ses eu"
proof (cases eu)
  case (Pair e u)
  let ?n = "length (Observees ses)"
  let ?f = "\<lambda>ob (e, u). (e, obs_Stop ob u)"
  have "fold (body_action ses) [0..<?n] (e, u) = fold (\<lambda>k. ?f (Observees ses ! k)) [0..<?n] (e, u)"
    by (rule fold_cong) (auto simp: body_action_def fun_eq_iff)
  also have "\<dots> = fold ?f (Observees ses) (e, u)" by (rule fold_nth)
  also have "\<dots> = (e, fold obs_Stop (Observees ses) u)" by (rule fold_keep_error)
  finally have 1: "fold (body_action ses) [0..<?n] (e, u) = (e, fold obs_Stop (Observees ses) u)" .
  have "[0..<body_length ses] = [0..<?n] @ [?n, Suc ?n]"
    by (simp add: body_length_def)
  then show ?thesis
    by (simp add: Pair 1 stop_body_def body_action_def)
qed

lemma count_list_upt: "count_list [0..<k] x = (if x < k then 1 else 0)"
  by (induction k) auto

text \<open>
  C2. For any number of callers of \<open>Stop\<close> on one entry and any interleaving of
  their steps: the actions of the body that have run are an initial part of the body,
  each once and in order, so \<open>Cleanup\<close> has run at most once; as soon as one caller
  has returned, the whole body has run exactly once, \<open>Cleanup\<close> exactly once, and the
  state is that of one run of the body; and as long as a caller has not returned, some
  caller can move.
\<close>

theorem stop_gate_body_exactly_once:
  "(\<exists>k\<le>body_length ses. trace (race_run ses sched (race_init n u)) = [0..<k])
   \<and> count_list (trace (race_run ses sched (race_init n u))) (cleanup_index ses) \<le> 1
   \<and> (Returned \<in> set (callers (race_run ses sched (race_init n u))) \<longrightarrow>
        trace (race_run ses sched (race_init n u)) = [0..<body_length ses]
        \<and> count_list (trace (race_run ses sched (race_init n u))) (cleanup_index ses) = 1
        \<and> ustate (race_run ses sched (race_init n u)) = stop_body ses u)
   \<and> ((\<exists>c \<in> set (callers (race_run ses sched (race_init n u))). c \<noteq> Returned) \<longrightarrow>
        (\<exists>t. race_step ses t (race_run ses sched (race_init n u)) \<noteq> None))"
proof -
  let ?s = "race_run ses sched (race_init n u)"
  have inv: "race_inv ses n u ?s"
    by (rule race_inv_run) (rule race_inv_init)
  have len: "length (callers ?s) = n" using inv by (simp add: race_inv_def)
  have prefix: "\<exists>k\<le>body_length ses. trace ?s = [0..<k]"
    using inv by (cases "gate ?s") (auto simp: race_inv_def intro: exI [of _ 0])
  then have atmost: "count_list (trace ?s) (cleanup_index ses) \<le> 1"
    by (auto simp: count_list_upt)
  have finished: "trace ?s = [0..<body_length ses]
        \<and> count_list (trace ?s) (cleanup_index ses) = 1
        \<and> ustate ?s = stop_body ses u" if r: "Returned \<in> set (callers ?s)"
  proof -
    from r obtain t where t: "t < n" "callers ?s ! t = Returned"
      using len by (auto simp: in_set_conv_nth)
    with inv have "gate ?s = Fired"
      by (cases "gate ?s") (auto simp: race_inv_def)
    with inv have tr: "trace ?s = [0..<body_length ses]"
      and us: "ustate ?s = fold (body_action ses) (trace ?s) u"
      by (auto simp: race_inv_def)
    have "ustate ?s = stop_body ses u"
      unfolding us tr by (rule fold_body_action)
    moreover have "count_list (trace ?s) (cleanup_index ses) = 1"
      unfolding tr by (simp add: count_list_upt cleanup_index_def body_length_def)
    ultimately show ?thesis using tr by simp
  qed
  have progress: "\<exists>t. race_step ses t ?s \<noteq> None" if r: "\<exists>c \<in> set (callers ?s). c \<noteq> Returned"
  proof -
    from r obtain t where t: "t < n" "callers ?s ! t \<noteq> Returned"
      using len by (auto simp: in_set_conv_nth)
    show ?thesis
    proof (cases "gate ?s")
      case Armed
      with inv t have "callers ?s ! t = Calling" by (auto simp: race_inv_def)
      with Armed t len have "race_step ses t ?s \<noteq> None" by (simp add: race_step_def)
      then show ?thesis ..
    next
      case Firing
      with inv obtain t' k where "t' < n" "callers ?s ! t' = Running k"
        by (auto simp: race_inv_def)
      with len have "race_step ses t' ?s \<noteq> None" by (simp add: race_step_def)
      then show ?thesis ..
    next
      case Fired
      with inv t have "callers ?s ! t = Calling" by (auto simp: race_inv_def)
      with Fired t len have "race_step ses t ?s \<noteq> None" by (simp add: race_step_def)
      then show ?thesis ..
    qed
  qed
  from prefix atmost finished progress show ?thesis by blast
qed

lemma logging_race_done:
  "race_run logging_session [1, 0, 1, 2, 1, 1, 1, 0, 2] (race_init 3 (None, []))
     = \<lparr>gate = Fired, callers = [Returned, Returned, Returned],
        ustate = (None, [''stop backend'', ''cleanup'']), trace = [0, 1, 2]\<rparr>"
  by (simp add: race_init_def race_step_def body_length_def body_action_def Wg_Wait_def
      logging_session_def numeral_3_eq_3)

lemma logging_race_running:
  "race_run logging_session [1, 0, 1] (race_init 3 (None, []))
     = \<lparr>gate = Firing, callers = [Calling, Running 1, Calling],
        ustate = (None, [''stop backend'']), trace = [0]\<rparr>"
  by (simp add: race_init_def race_step_def body_length_def body_action_def Wg_Wait_def
      logging_session_def numeral_3_eq_3)

text \<open>C2 with three callers, where the second wins the gate.\<close>

theorem stop_gate_body_exactly_once_witness:
  "Returned \<in> set (callers (race_run logging_session [1, 0, 1, 2, 1, 1, 1, 0, 2] (race_init 3 (None, []))))
   \<and> ustate (race_run logging_session [1, 0, 1, 2, 1, 1, 1, 0, 2] (race_init 3 (None, [])))
       = (None, [''stop backend'', ''cleanup''])
   \<and> count_list (trace (race_run logging_session [1, 0, 1, 2, 1, 1, 1, 0, 2] (race_init 3 (None, []))))
        (cleanup_index logging_session) = 1
   \<and> (\<exists>c \<in> set (callers (race_run logging_session [1, 0, 1] (race_init 3 (None, [])))). c \<noteq> Returned)
   \<and> (\<exists>t. race_step logging_session t
              (race_run logging_session [1, 0, 1] (race_init 3 (None, []))) \<noteq> None)
   \<and> race_step logging_session 1 (race_run logging_session [1, 0, 1] (race_init 3 (None, []))) \<noteq> None
   \<and> race_step logging_session 0 (race_run logging_session [1, 0, 1] (race_init 3 (None, []))) = None"
proof -
  have r: "Returned \<in> set (callers (race_run logging_session [1, 0, 1, 2, 1, 1, 1, 0, 2]
             (race_init 3 (None, []))))"
    by (subst logging_race_done) simp
  have w: "\<exists>c \<in> set (callers (race_run logging_session [1, 0, 1] (race_init 3 (None, [])))). c \<noteq> Returned"
    by (subst logging_race_running) simp
  note once = stop_gate_body_exactly_once [of logging_session "[1, 0, 1, 2, 1, 1, 1, 0, 2]" 3 "(None, [])",
      THEN conjunct2, THEN conjunct2, THEN conjunct1, rule_format, OF r]
  have b: "stop_body logging_session (None, []) = (None, [''stop backend'', ''cleanup''])"
    by (simp add: stop_body_def logging_session_def Wg_Wait_def)
  have s: "race_step logging_session 1 (race_run logging_session [1, 0, 1] (race_init 3 (None, []))) \<noteq> None
     \<and> race_step logging_session 0 (race_run logging_session [1, 0, 1] (race_init 3 (None, []))) = None"
    unfolding logging_race_running
    by (simp add: race_step_def body_length_def logging_session_def)
  note progress = stop_gate_body_exactly_once [of logging_session "[1, 0, 1]" 3 "(None, [])",
      THEN conjunct2, THEN conjunct2, THEN conjunct2, rule_format, OF w]
  note u1 = once [THEN conjunct2, THEN conjunct2, unfolded b]
  note c1 = once [THEN conjunct2, THEN conjunct1]
  from s have s1: "race_step logging_session 1
      (race_run logging_session [1, 0, 1] (race_init 3 (None, []))) \<noteq> None"
    and s0: "race_step logging_session 0
      (race_run logging_session [1, 0, 1] (race_init 3 (None, []))) = None"
    by blast+
  show ?thesis
    by (intro conjI) (rule r, rule u1, rule c1, rule w, rule progress, rule s1, rule s0)
qed


end
